theory Spec2Isabelle
  imports Main "HOL-Library.Log_Nat"
begin

section \<open>JavaScript numbers\<close>

text \<open>
  Every \<^verbatim>\<open>number\<close> of the program (balances, amounts, prices) is an IEEE 754
  binary64 value. A finite one is kept as the rational it denotes; the two infinities
  and NaN are separate values. Negative zero is identified with zero: the program only
  adds, subtracts, negates and tests numbers for truthiness, and none of these
  distinguishes the two zeros.
\<close>

datatype number = Finite rat | PosInfinity | NegInfinity | NaN

definition pow2 :: "int \<Rightarrow> rat" where
  "pow2 e = (if 0 \<le> e then 2 ^ nat e else 1 / 2 ^ nat (- e))"

text \<open>For \<open>0 < x\<close>, \<open>ilog2 x\<close> is the integer \<open>L\<close> with \<open>2\<^sup>L \<le> x < 2\<^sup>L\<^sup>+\<^sup>1\<close>.\<close>

definition ilog2 :: "rat \<Rightarrow> int" where
  "ilog2 x = (if 1 \<le> x then bitlen \<lfloor>x\<rfloor> - 1 else - bitlen (\<lceil>1 / x\<rceil> - 1))"

definition round_half_even :: "rat \<Rightarrow> int" where
  "round_half_even x =
     (let f = \<lfloor>x\<rfloor>; d = x - of_int f
      in if d < 1 / 2 then f else if 1 / 2 < d then f + 1 else if even f then f else f + 1)"

text \<open>
  Rounding of an exact result to binary64, to nearest with ties to even: 53 bits of
  significand, the least unit \<open>2\<^sup>-\<^sup>1\<^sup>0\<^sup>7\<^sup>4\<close> (subnormals), overflow to
  infinity from \<open>2\<^sup>1\<^sup>0\<^sup>2\<^sup>4\<close> on.
\<close>

definition round_double :: "rat \<Rightarrow> number" where
  "round_double x =
     (if x = 0 then Finite 0
      else let e = max (ilog2 \<bar>x\<bar> - 52) (- 1074);
               y = of_int (round_half_even (x / pow2 e)) * pow2 e
           in if pow2 1024 \<le> \<bar>y\<bar> then (if 0 < x then PosInfinity else NegInfinity)
              else Finite y)"

text \<open>A rational is a binary64 value when rounding leaves it as it is.\<close>

definition is_double :: "rat \<Rightarrow> bool" where
  "is_double x = (round_double x = Finite x)"

fun js_neg :: "number \<Rightarrow> number" where
  "js_neg (Finite x) = Finite (- x)"
| "js_neg PosInfinity = NegInfinity"
| "js_neg NegInfinity = PosInfinity"
| "js_neg NaN = NaN"

fun js_add :: "number \<Rightarrow> number \<Rightarrow> number" where
  "js_add NaN y = NaN"
| "js_add x NaN = NaN"
| "js_add (Finite x) (Finite y) = round_double (x + y)"
| "js_add PosInfinity NegInfinity = NaN"
| "js_add NegInfinity PosInfinity = NaN"
| "js_add PosInfinity y = PosInfinity"
| "js_add NegInfinity y = NegInfinity"
| "js_add (Finite x) y = y"

definition js_sub :: "number \<Rightarrow> number \<Rightarrow> number" where
  "js_sub x y = js_add x (js_neg y)"

text \<open>Truthiness, as the guard \<^verbatim>\<open>newTx.amount && ...\<close> reads it: \<^verbatim>\<open>undefined\<close>, zero and
  NaN are falsy; \<^verbatim>\<open>undefined\<close> and the empty string are the falsy strings.\<close>

fun truthy_number :: "number option \<Rightarrow> bool" where
  "truthy_number None = False"
| "truthy_number (Some (Finite x)) = (x \<noteq> 0)"
| "truthy_number (Some NaN) = False"
| "truthy_number (Some _) = True"

fun truthy_string :: "string option \<Rightarrow> bool" where
  "truthy_string None = False"
| "truthy_string (Some s) = (s \<noteq> [])"

section \<open>The ledger: accounts and transactions (types.ts, App.tsx)\<close>

datatype AccountType = Bank | Cash | Investment | CreditCard

datatype TransactionType = Income | Expense

text \<open>The fields \<^verbatim>\<open>id\<close>, \<^verbatim>\<open>name\<close> and \<^verbatim>\<open>type\<close> occur in several interfaces of
  types.ts; they carry the interface as a prefix here.\<close>

record Account =
  account_id :: string
  account_name :: string
  account_type :: AccountType
  balance :: number
  currency :: string

record Transaction =
  tx_id :: string
  accountId :: string
  amount :: number
  tx_type :: TransactionType
  category :: string
  date :: string
  description :: string

text \<open>
  The form state \<^verbatim>\<open>newTx : Partial<Transaction>\<close>. Its \<^verbatim>\<open>type\<close> is set by the
  initial state, kept by every update and set again by the reset, so it is always there;
  every other field may be missing.
\<close>

record NewTx =
  new_amount :: "number option"
  new_accountId :: "string option"
  new_type :: TransactionType
  new_category :: "string option"
  new_date :: "string option"
  new_description :: "string option"

text \<open>The two collections of the ledger, as the React state holds them.\<close>

record Ledger =
  accounts :: "Account list"
  transactions :: "Transaction list"

text \<open>
  With the document store configured, the handlers do not touch the React state: they
  send write requests, and the state follows through the store's subscriptions. The
  requests are recorded in the order they are issued (the record sent by
  \<^verbatim>\<open>addDoc\<close> carries \<^verbatim>\<open>id: undefined\<close>; the store names the document). The store
  itself is not part of the repository.
\<close>

datatype store_write =
    AddTransaction Transaction
  | DeleteTransaction string
  | SetBalance string number

fun findIndex :: "('a \<Rightarrow> bool) \<Rightarrow> 'a list \<Rightarrow> nat option" where
  "findIndex P [] = None"
| "findIndex P (x # xs) = (if P x then Some 0 else map_option Suc (findIndex P xs))"

text \<open>The signed effect \<^verbatim>\<open>type === 'Income' ? amount : -amount\<close>.\<close>

definition signed :: "TransactionType \<Rightarrow> number \<Rightarrow> number" where
  "signed ty amt = (if ty = Income then amt else js_neg amt)"

text \<open>
  The record \<^verbatim>\<open>txData\<close> that \<^verbatim>\<open>handleSaveTransaction\<close> builds from the form.
  \<open>fresh\<close> is the identifier \<^verbatim>\<open>Math.random().toString()\<close> and \<open>now\<close> the clock
  reading \<^verbatim>\<open>new Date().toISOString()\<close>.
\<close>

definition txData :: "string \<Rightarrow> string \<Rightarrow> NewTx \<Rightarrow> number \<Rightarrow> string \<Rightarrow> string \<Rightarrow> Transaction" where
  "txData fresh now newTx amt aid cat =
     \<lparr>tx_id = fresh, accountId = aid, amount = amt, tx_type = new_type newTx,
      category = cat,
      date = (if truthy_string (new_date newTx) then the (new_date newTx) else now),
      description = (if truthy_string (new_description newTx)
                     then the (new_description newTx) else [])\<rparr>"

text \<open>
  \<^verbatim>\<open>handleSaveTransaction\<close> (apply). When the guard fails the handler does nothing;
  it raises no error in any case. In demo mode the new record is put in front of the
  collection and the balance of the first account with the given identifier, if there is
  one, is updated in place.
\<close>

definition handleSaveTransaction ::
  "bool \<Rightarrow> bool \<Rightarrow> string \<Rightarrow> string \<Rightarrow> NewTx \<Rightarrow> Ledger \<Rightarrow> Ledger \<times> store_write list" where
  "handleSaveTransaction isDemoMode db fresh now newTx st =
     (if truthy_number (new_amount newTx) \<and> truthy_string (new_accountId newTx)
         \<and> truthy_string (new_category newTx)
      then
        (case (new_amount newTx, new_accountId newTx, new_category newTx) of
           (Some amt, Some aid, Some cat) \<Rightarrow>
             let tx = txData fresh now newTx amt aid cat
             in if isDemoMode then
                  (case findIndex (\<lambda>a. account_id a = aid) (accounts st) of
                     Some accIndex \<Rightarrow>
                       (st\<lparr>transactions := tx # transactions st,
                           accounts := (accounts st)[accIndex :=
                             (accounts st ! accIndex)\<lparr>balance :=
                                js_add (balance (accounts st ! accIndex))
                                       (signed (new_type newTx) amt)\<rparr>]\<rparr>, [])
                   | None \<Rightarrow> (st\<lparr>transactions := tx # transactions st\<rparr>, []))
                else if db then
                  (st, AddTransaction tx #
                       (case List.find (\<lambda>a. account_id a = aid) (accounts st) of
                          Some account \<Rightarrow>
                            [SetBalance (account_id account)
                               (js_add (balance account) (signed (new_type newTx) amt))]
                        | None \<Rightarrow> []))
                else (st, [])
         | _ \<Rightarrow> (st, []))
      else (st, []))"

text \<open>
  \<^verbatim>\<open>deleteTransaction\<close> (revert). \<open>confirmed\<close> is the answer to the
  \<^verbatim>\<open>confirm\<close> dialog. The handler does not look whether \<open>t\<close> is in the collection.
\<close>

definition deleteTransaction ::
  "bool \<Rightarrow> bool \<Rightarrow> bool \<Rightarrow> Transaction \<Rightarrow> Ledger \<Rightarrow> Ledger \<times> store_write list" where
  "deleteTransaction isDemoMode db confirmed t st =
     (if confirmed then
        if isDemoMode then
          (case findIndex (\<lambda>a. account_id a = accountId t) (accounts st) of
             Some accIndex \<Rightarrow>
               (st\<lparr>transactions := filter (\<lambda>tr. tx_id tr \<noteq> tx_id t) (transactions st),
                   accounts := (accounts st)[accIndex :=
                     (accounts st ! accIndex)\<lparr>balance :=
                        js_sub (balance (accounts st ! accIndex))
                               (signed (tx_type t) (amount t))\<rparr>]\<rparr>, [])
           | None \<Rightarrow>
               (st\<lparr>transactions := filter (\<lambda>tr. tx_id tr \<noteq> tx_id t) (transactions st)\<rparr>, []))
        else if db then
          (st, DeleteTransaction (tx_id t) #
               (case List.find (\<lambda>a. account_id a = accountId t) (accounts st) of
                  Some account \<Rightarrow>
                    [SetBalance (account_id account)
                       (js_sub (balance account) (signed (tx_type t) (amount t)))]
                | None \<Rightarrow> []))
        else (st, [])
      else (st, []))"

subsection \<open>Exactness and the ledger invariant\<close>

text \<open>An addition of two finite numbers is exact when its exact sum is a binary64 value,
  so that \<open>js_add\<close> does not round.\<close>

definition exact_add :: "number \<Rightarrow> number \<Rightarrow> bool" where
  "exact_add x y = (case (x, y) of (Finite a, Finite b) \<Rightarrow> is_double (a + b) | _ \<Rightarrow> False)"

text \<open>The signed effect of a recorded transaction as an exact quantity: \<open>+amount\<close> for
  Income, \<open>-amount\<close> for Expense.\<close>

definition signed_value :: "Transaction \<Rightarrow> rat" where
  "signed_value t =
     (case amount t of Finite a \<Rightarrow> (if tx_type t = Income then a else - a) | _ \<Rightarrow> 0)"

text \<open>The sum of the signed effects of the transactions that reference account \<open>k\<close>.\<close>

definition signed_effects :: "Transaction list \<Rightarrow> string \<Rightarrow> rat" where
  "signed_effects txs k = sum_list (map signed_value (filter (\<lambda>t. accountId t = k) txs))"

text \<open>
  Ledger integrity, in the words of the specification: every account's balance is its
  opening balance plus the sum of the signed effects of the transactions that reference
  it. The program keeps no opening balance; it is a parameter of the invariant.
\<close>

definition ledger_integrity :: "(string \<Rightarrow> rat) \<Rightarrow> Ledger \<Rightarrow> bool" where
  "ledger_integrity openingBalance st =
     list_all (\<lambda>a. balance a =
         Finite (openingBalance (account_id a) + signed_effects (transactions st) (account_id a)))
       (accounts st)"

subsection \<open>Example ledgers\<close>

definition ex_account :: "number \<Rightarrow> Account" where
  "ex_account b = \<lparr>account_id = ''1'', account_name = ''Main'', account_type = Bank,
                    balance = b, currency = ''TWD''\<rparr>"

definition ex_ledger :: "number \<Rightarrow> Ledger" where
  "ex_ledger b = \<lparr>accounts = [ex_account b], transactions = []\<rparr>"

definition ex_newTx :: "TransactionType \<Rightarrow> number \<Rightarrow> NewTx" where
  "ex_newTx ty amt = \<lparr>new_amount = Some amt, new_accountId = Some ''1'', new_type = ty,
                       new_category = Some ''Salary'', new_date = Some ''2023-10-05'',
                       new_description = None\<rparr>"

text \<open>The transaction that \<open>ex_newTx\<close> records under the identifier \<open>t1\<close>.\<close>

definition ex_tx :: "TransactionType \<Rightarrow> number \<Rightarrow> Transaction" where
  "ex_tx ty amt = \<lparr>tx_id = ''t1'', accountId = ''1'', amount = amt, tx_type = ty,
                    category = ''Salary'', date = ''2023-10-05'', description = []\<rparr>"

definition ex_opening :: "string \<Rightarrow> rat" where
  "ex_opening i = 5000"

text \<open>The opening balance 0.1, as the exact value of that binary64 number.\<close>

definition tenth_opening :: "string \<Rightarrow> rat" where
  "tenth_opening i = 3602879701896397 / 36028797018963968"

text \<open>The numbers \<^verbatim>\<open>0.1\<close> and \<^verbatim>\<open>0.2\<close>: the binary64 values nearest to 1/10 and 1/5.\<close>

definition ex_tenth :: number where
  "ex_tenth = round_double (1 / 10)"

definition ex_fifth :: number where
  "ex_fifth = round_double (1 / 5)"

text \<open>An account holding 0.1 receives an Income of 0.2, which is then deleted.\<close>

definition rt_before :: Ledger where
  "rt_before = ex_ledger ex_tenth"

definition rt_applied :: Ledger where
  "rt_applied = fst (handleSaveTransaction True False ''t1'' ''2023-10-05''
                       (ex_newTx Income ex_fifth) rt_before)"


text \<open>An account holding 5000 receives an Income of 1000, which is then deleted, and
  deleted once more.\<close>

definition dr_applied :: Ledger where
  "dr_applied = fst (handleSaveTransaction True False ''t1'' ''2023-10-05''
                       (ex_newTx Income (Finite 1000)) (ex_ledger (Finite 5000)))"

definition dr_reverted :: Ledger where
  "dr_reverted = fst (deleteTransaction True False True (ex_tx Income (Finite 1000)) dr_applied)"


text \<open>The second step of the specification's end-to-end example: an Expense of 2500
  after the Income of 1000.\<close>

definition dr_spent :: Ledger where
  "dr_spent = fst (handleSaveTransaction True False ''t2'' ''2023-10-06''
                     (ex_newTx Expense (Finite 2500)) dr_applied)"

text \<open>A transaction that was never applied is deleted from a ledger that holds 5000.\<close>

definition na_reverted :: Ledger where
  "na_reverted =
     fst (deleteTransaction True False True (ex_tx Income (Finite 1000)) (ex_ledger (Finite 5000)))"

text \<open>Submissions with the amount -5, with an account identifier that no account has,
  and with the amount 0.\<close>

definition neg_applied :: "Ledger \<times> store_write list" where
  "neg_applied = handleSaveTransaction True False ''t1'' ''2023-10-05''
                   (ex_newTx Expense (Finite (- 5))) (ex_ledger (Finite 5000))"

definition ex_newTx_unknown :: NewTx where
  "ex_newTx_unknown = (ex_newTx Income (Finite 1000))\<lparr>new_accountId := Some ''nobody''\<rparr>"

definition unknown_applied :: "Ledger \<times> store_write list" where
  "unknown_applied = handleSaveTransaction True False ''t1'' ''2023-10-05''
                       ex_newTx_unknown (ex_ledger (Finite 5000))"

definition ex_newTx_zero :: NewTx where
  "ex_newTx_zero = ex_newTx Income (Finite 0)"

section \<open>Strings and parsed JSON\<close>

text \<open>
  A JavaScript string is a sequence of UTF-16 code units. The model keeps it as a
  \<open>string\<close> whose characters are the code units 0 to 255 (Latin-1); ticker symbols and
  the JSON syntax lie in that range.
\<close>

definition starts_with :: "string \<Rightarrow> string \<Rightarrow> bool" where
  "starts_with p s = (take (length p) s = p)"

text \<open>\<^verbatim>\<open>s.includes(sub)\<close>: \<open>sub\<close> occurs in \<open>s\<close>, case-sensitively.\<close>

fun js_includes :: "string \<Rightarrow> string \<Rightarrow> bool" where
  "js_includes [] sub = (sub = [])"
| "js_includes (c # cs) sub = (starts_with sub (c # cs) \<or> js_includes cs sub)"

text \<open>\<^verbatim>\<open>toLowerCase\<close> on Latin-1: A to Z and the accented capitals U+00C0 to U+00DE
  (without the multiplication sign U+00D7) move up by 32.\<close>

definition lower_char :: "char \<Rightarrow> char" where
  "lower_char c =
     (let n = (of_char c :: nat)
      in if (65 \<le> n \<and> n \<le> 90) \<or> (192 \<le> n \<and> n \<le> 214) \<or> (216 \<le> n \<and> n \<le> 222)
         then char_of (n + 32) else c)"

definition toLowerCase :: "string \<Rightarrow> string" where
  "toLowerCase s = map lower_char s"

text \<open>\<^verbatim>\<open>indexOf\<close> and \<^verbatim>\<open>lastIndexOf\<close> of a character; \<open>None\<close> is the result -1.\<close>

fun indexOf :: "char \<Rightarrow> string \<Rightarrow> nat option" where
  "indexOf c [] = None"
| "indexOf c (x # xs) = (if x = c then Some 0 else map_option Suc (indexOf c xs))"

definition lastIndexOf :: "char \<Rightarrow> string \<Rightarrow> nat option" where
  "lastIndexOf c s = map_option (\<lambda>i. length s - 1 - i) (indexOf c (rev s))"

text \<open>\<^verbatim>\<open>substring(a, b)\<close> swaps its arguments when \<open>a > b\<close>.\<close>

definition substring :: "string \<Rightarrow> nat \<Rightarrow> nat \<Rightarrow> string" where
  "substring s a b = take (max a b - min a b) (drop (min a b) s)"

text \<open>Decimal digits, and the digits of the bases 2, 8 and 16.\<close>

definition is_digit :: "char \<Rightarrow> bool" where
  "is_digit c = (48 \<le> (of_char c :: nat) \<and> (of_char c :: nat) \<le> 57)"

fun digits_value :: "nat \<Rightarrow> string \<Rightarrow> nat" where
  "digits_value acc [] = acc"
| "digits_value acc (c # cs) = digits_value (10 * acc + (of_char c - 48)) cs"

definition digit_of :: "nat \<Rightarrow> char \<Rightarrow> nat option" where
  "digit_of b c =
     (let n = (of_char c :: nat);
          d = (if 48 \<le> n \<and> n \<le> 57 then n - 48
               else if 97 \<le> n \<and> n \<le> 102 then n - 87
               else if 65 \<le> n \<and> n \<le> 70 then n - 55
               else 16)
      in if d < b then Some d else None)"

fun radix_value :: "nat \<Rightarrow> nat \<Rightarrow> string \<Rightarrow> nat option" where
  "radix_value b acc [] = Some acc"
| "radix_value b acc (c # cs) =
     (case digit_of b c of
        None \<Rightarrow> None
      | Some d \<Rightarrow> radix_value b (b * acc + d) cs)"

text \<open>
  A value produced by \<^verbatim>\<open>JSON.parse\<close>. An object keeps its members in the order of the
  text; a property read takes the last member with the name. \<^verbatim>\<open>undefined\<close>, the
  result of reading a property that is not there, is \<open>None\<close> of \<open>json option\<close>.
\<close>

datatype json =
    JNull
  | JBool bool
  | JNum number
  | JStr string
  | JArr "json list"
  | JObj "(string \<times> json) list"

datatype error = ServiceError string | TypeError

text \<open>
  The property reads \<^verbatim>\<open>x.symbol\<close> and \<^verbatim>\<open>x.price\<close> on a parsed value: reading a
  property of \<^verbatim>\<open>null\<close> raises a TypeError; a number, a boolean, a string and an array
  have no property of these names.
\<close>

fun get_prop :: "json \<Rightarrow> string \<Rightarrow> error + json option" where
  "get_prop JNull k = Inl TypeError"
| "get_prop (JObj kvs) k = Inr (map_of (rev kvs) k)"
| "get_prop x k = Inr None"

subsection \<open>The two fence patterns\<close>

text \<open>The class \<^verbatim>\<open>\s\<close> on Latin-1: tab, line feed, vertical tab, form feed, carriage
  return, space and the no-break space.\<close>

definition is_space :: "char \<Rightarrow> bool" where
  "is_space c =
     (let n = (of_char c :: nat)
      in n = 9 \<or> n = 10 \<or> n = 11 \<or> n = 12 \<or> n = 13 \<or> n = 32 \<or> n = 160)"

text \<open>
  The patterns \<^verbatim>\<open>/```json\s*([\s\S]*?)\s*```/\<close> and \<^verbatim>\<open>/```\s*([\s\S]*?)\s*```/\<close> are
  matched the way a backtracking engine does. \<open>closes s\<close>: the tail \<^verbatim>\<open>\s*```\<close> matches
  at the head of \<open>s\<close> (giving back white space cannot help, since a backquote is not
  white space). \<open>lazy_group\<close>: the lazy group takes the fewest characters after which the
  tail matches, and is the captured text. \<open>after_spaces\<close>: the greedy \<^verbatim>\<open>\s*\<close> behind
  the opening fence first takes all \<open>k\<close> white-space characters and gives them back one
  by one. \<open>match_fence\<close>: the start positions are tried from left to right; the result is
  the first capture group of the match, \<open>None\<close> when there is no match.
\<close>

definition closes :: "string \<Rightarrow> bool" where
  "closes s = starts_with ''```'' (dropWhile is_space s)"

fun lazy_group :: "string \<Rightarrow> string option" where
  "lazy_group [] = None"
| "lazy_group (c # cs) =
     (if closes (c # cs) then Some [] else map_option ((#) c) (lazy_group cs))"

fun after_spaces :: "string \<Rightarrow> nat \<Rightarrow> string option" where
  "after_spaces rest 0 = lazy_group rest"
| "after_spaces rest (Suc k) =
     (case lazy_group (drop (Suc k) rest) of
        Some cap \<Rightarrow> Some cap
      | None \<Rightarrow> after_spaces rest k)"

fun match_fence :: "string \<Rightarrow> string \<Rightarrow> string option" where
  "match_fence opener [] = None"
| "match_fence opener (c # cs) =
     (if starts_with opener (c # cs) then
        (let rest = drop (length opener) (c # cs)
         in case after_spaces rest (length (takeWhile is_space rest)) of
              Some cap \<Rightarrow> Some cap
            | None \<Rightarrow> match_fence opener cs)
      else match_fence opener cs)"

text \<open>\<^verbatim>\<open>text.match(labelled) || text.match(unlabelled)\<close>: a match is truthy whatever
  it captured, so the second pattern is tried only when the first does not match.\<close>

definition jsonMatch :: "string \<Rightarrow> string option" where
  "jsonMatch text =
     (case match_fence ''```json'' text of
        Some cap \<Rightarrow> Some cap
      | None \<Rightarrow> match_fence ''```'' text)"

section \<open>The price lookup (services/geminiService.ts)\<close>

record GroundingSource =
  title :: string
  url :: string

text \<open>What the function reads of the service's response: \<^verbatim>\<open>response.text\<close> and, under
  \<^verbatim>\<open>candidates?.[0]?.groundingMetadata?.groundingChunks\<close>, the \<^verbatim>\<open>web\<close> part of each
  chunk.\<close>

record GroundingChunkWeb =
  uri :: "string option"
  web_title :: "string option"

record GenerateContentResponse =
  response_text :: "string option"
  groundingChunks :: "GroundingChunkWeb option list option"

fun chunk_source :: "GroundingChunkWeb option \<Rightarrow> GroundingSource list" where
  "chunk_source None = []"
| "chunk_source (Some w) =
     (if truthy_string (uri w) \<and> truthy_string (web_title w)
      then [\<lparr>title = the (web_title w), url = the (uri w)\<rparr>] else [])"

text \<open>
  The parsing block of \<^verbatim>\<open>fetchCurrentStockPrices\<close>. \<open>parse\<close> stands for
  \<^verbatim>\<open>JSON.parse\<close>: \<open>Some v\<close> when the text is JSON with the value \<open>v\<close>, \<open>None\<close> when
  \<^verbatim>\<open>JSON.parse\<close> throws. \<^verbatim>\<open>prices\<close> starts as the empty array and takes whatever
  value \<^verbatim>\<open>JSON.parse\<close> returns, array or not; nothing is checked against
  \<^verbatim>\<open>StockUpdateResult\<close>. The bracket search is the \<^verbatim>\<open>else\<close> branch of the test
  \<^verbatim>\<open>jsonMatch && jsonMatch[1]\<close>: it runs when no fence matched or the capture is
  empty, and not when the capture fails to parse.
\<close>

definition bracket_prices :: "(string \<Rightarrow> json option) \<Rightarrow> string \<Rightarrow> json" where
  "bracket_prices parse text =
     (case (indexOf CHR ''['' text, lastIndexOf CHR '']'' text) of
        (Some start, Some stop) \<Rightarrow>
          (case parse (substring text start (stop + 1)) of Some v \<Rightarrow> v | None \<Rightarrow> JArr [])
      | _ \<Rightarrow> JArr [])"

definition extract_prices :: "(string \<Rightarrow> json option) \<Rightarrow> string \<Rightarrow> json" where
  "extract_prices parse text =
     (case jsonMatch text of
        Some cap \<Rightarrow>
          if cap \<noteq> [] then (case parse cap of Some v \<Rightarrow> v | None \<Rightarrow> JArr [])
          else bracket_prices parse text
      | None \<Rightarrow> bracket_prices parse text)"

text \<open>
  \<^verbatim>\<open>fetchCurrentStockPrices\<close>. \<open>generateContent\<close> stands for the call to the external
  service for the given symbols: it fails (\<open>Inl\<close>) or responds. The second component of
  the result lists the requests that were sent to the service.
\<close>

definition fetchCurrentStockPrices ::
  "(string \<Rightarrow> json option) \<Rightarrow> (string list \<Rightarrow> error + GenerateContentResponse) \<Rightarrow>
   string list \<Rightarrow> (error + json \<times> GroundingSource list) \<times> string list list" where
  "fetchCurrentStockPrices parse generateContent symbols =
     (if symbols = [] then (Inr (JArr [], []), [])
      else
        (case generateContent symbols of
           Inl err \<Rightarrow> (Inl err, [symbols])
         | Inr response \<Rightarrow>
             (let text = (if truthy_string (response_text response)
                          then the (response_text response) else []);
                  chunks = (case groundingChunks response of Some cs \<Rightarrow> cs | None \<Rightarrow> []);
                  sources = concat (map chunk_source chunks);
                  prices = extract_prices parse text
              in (Inr (prices, sources), [symbols]))))"

section \<open>The price refresh (App.tsx)\<close>

text \<open>
  A holding. \<^verbatim>\<open>currentPrice\<close> is declared a number, but the refresh stores whatever
  the matched element carries under \<^verbatim>\<open>price\<close> without a check, so the field holds a
  parsed value or \<^verbatim>\<open>undefined\<close>.
\<close>

record StockHolding =
  symbol :: string
  holding_name :: string
  quantity :: number
  averageCost :: number
  currentPrice :: "json option"
  lastUpdated :: "string option"

text \<open>\<^verbatim>\<open>Array.prototype.find\<close> with a callback that may raise: the elements are tried
  in order, and an error ends the search.\<close>

fun find_js :: "('a \<Rightarrow> error + bool) \<Rightarrow> 'a list \<Rightarrow> error + 'a option" where
  "find_js P [] = Inr None"
| "find_js P (x # xs) =
     (case P x of
        Inl e \<Rightarrow> Inl e
      | Inr b \<Rightarrow> if b then Inr (Some x) else find_js P xs)"

text \<open>\<^verbatim>\<open>Array.prototype.map\<close> with a callback that may raise.\<close>

fun map_js :: "('a \<Rightarrow> error + 'b) \<Rightarrow> 'a list \<Rightarrow> error + 'b list" where
  "map_js f [] = Inr []"
| "map_js f (x # xs) =
     (case f x of
        Inl e \<Rightarrow> Inl e
      | Inr y \<Rightarrow> (case map_js f xs of Inl e \<Rightarrow> Inl e | Inr ys \<Rightarrow> Inr (y # ys)))"

text \<open>The demo-mode test \<^verbatim>\<open>x.symbol === s.symbol\<close>.\<close>

definition demo_match :: "StockHolding \<Rightarrow> json \<Rightarrow> error + bool" where
  "demo_match s x =
     (case get_prop x ''symbol'' of
        Inl e \<Rightarrow> Inl e
      | Inr v \<Rightarrow> Inr (v = Some (JStr (symbol s))))"

text \<open>
  The test of the persisted mode,
  \<^verbatim>\<open>p.symbol.toLowerCase() === stock.symbol.toLowerCase() || p.symbol.includes(stock.symbol)\<close>.
  Calling \<^verbatim>\<open>toLowerCase\<close> on anything but a string raises a TypeError.
\<close>

definition live_match :: "StockHolding \<Rightarrow> json \<Rightarrow> error + bool" where
  "live_match stock p =
     (case get_prop p ''symbol'' of
        Inl e \<Rightarrow> Inl e
      | Inr (Some (JStr qs)) \<Rightarrow>
          Inr (toLowerCase qs = toLowerCase (symbol stock) \<or> js_includes qs (symbol stock))
      | Inr _ \<Rightarrow> Inl TypeError)"

text \<open>
  The callback of \<^verbatim>\<open>stocks.map\<close> in demo mode. A found element is an object, hence
  truthy. \<open>now\<close> is the clock reading.
\<close>

definition demo_update :: "string \<Rightarrow> json list \<Rightarrow> StockHolding \<Rightarrow> error + StockHolding" where
  "demo_update now prices s =
     (case find_js (demo_match s) prices of
        Inl e \<Rightarrow> Inl e
      | Inr None \<Rightarrow> Inr s
      | Inr (Some p) \<Rightarrow>
          (case get_prop p ''price'' of
             Inl e \<Rightarrow> Inl e
           | Inr v \<Rightarrow> Inr (s\<lparr>currentPrice := v, lastUpdated := Some now\<rparr>)))"

text \<open>A request \<^verbatim>\<open>updateDoc(doc(db, "stocks", symbol), {currentPrice, lastUpdated})\<close>.\<close>

datatype stock_write = UpdateStock string "json option" string

text \<open>
  The loop of the persisted mode: one search per holding, one write request per match.
  The request is built and sent inside an inner \<^verbatim>\<open>try\<close>, whose \<^verbatim>\<open>catch\<close> only logs,
  so a failure there is followed by the next holding. An error of the search itself
  leaves the loop, with the requests for the earlier holdings already sent.
\<close>

fun live_loop :: "string \<Rightarrow> json list \<Rightarrow> StockHolding list \<Rightarrow> error option \<times> stock_write list" where
  "live_loop now prices [] = (None, [])"
| "live_loop now prices (stock # rest) =
     (case find_js (live_match stock) prices of
        Inl e \<Rightarrow> (Some e, [])
      | Inr None \<Rightarrow> live_loop now prices rest
      | Inr (Some update) \<Rightarrow>
          (case get_prop update ''price'' of
             Inl e \<Rightarrow> live_loop now prices rest
           | Inr v \<Rightarrow>
               (let (err, ws) = live_loop now prices rest
                in (err, UpdateStock (symbol stock) v now # ws))))"

text \<open>
  What \<^verbatim>\<open>handleUpdateStocks\<close> leaves behind: the holdings and the sources of the React
  state, the write requests sent to the store, and whether the \<^verbatim>\<open>catch\<close> block showed
  the alert "Failed to update stock prices via AI". The handler itself never throws.
\<close>

record sync_result =
  stocks_after :: "StockHolding list"
  sources_after :: "GroundingSource list"
  writes :: "stock_write list"
  alerted :: bool

text \<open>The body of the \<^verbatim>\<open>try\<close> block after the prices have arrived, when they are
  an array.
  \<^verbatim>\<open>setStockSources([])\<close> has run before, so an error leaves the sources empty.\<close>

definition apply_prices ::
  "bool \<Rightarrow> bool \<Rightarrow> string \<Rightarrow> json list \<Rightarrow> GroundingSource list \<Rightarrow> StockHolding list \<Rightarrow> sync_result" where
  "apply_prices isDemoMode db now prices sources stocks =
     (if prices \<noteq> [] then
        if isDemoMode then
          (case map_js (demo_update now prices) stocks of
             Inl e \<Rightarrow> \<lparr>stocks_after = stocks, sources_after = [], writes = [], alerted = True\<rparr>
           | Inr newStocks \<Rightarrow>
               \<lparr>stocks_after = newStocks, sources_after = sources, writes = [], alerted = False\<rparr>)
        else if db then
          (case live_loop now prices stocks of
             (Some e, ws) \<Rightarrow>
               \<lparr>stocks_after = stocks, sources_after = [], writes = ws, alerted = True\<rparr>
           | (None, ws) \<Rightarrow>
               \<lparr>stocks_after = stocks, sources_after = sources, writes = ws, alerted = False\<rparr>)
        else \<lparr>stocks_after = stocks, sources_after = sources, writes = [], alerted = False\<rparr>
      else \<lparr>stocks_after = stocks, sources_after = sources, writes = [], alerted = False\<rparr>)"

subsection \<open>A parsed value that is not an array\<close>











subsection \<open>The matcher and the entry validation in the words of the specification\<close>

text \<open>The symbol of a well-formed quote (the empty string for anything else).\<close>

definition quote_symbol :: "json \<Rightarrow> string" where
  "quote_symbol x = (case get_prop x ''symbol'' of Inr (Some (JStr s)) \<Rightarrow> s | _ \<Rightarrow> [])"




text \<open>
  Specification 4.2: first an exact match of the quote symbol and the holding symbol,
  case-insensitive; failing that, the first quote, in list order, such that the holding
  symbol contains the quote symbol or the quote symbol contains the holding symbol,
  case-insensitive.
\<close>

definition spec_match :: "json list \<Rightarrow> string \<Rightarrow> json option" where
  "spec_match quotes holdingSymbol =
     (case List.find (\<lambda>q. toLowerCase (quote_symbol q) = toLowerCase holdingSymbol) quotes of
        Some q \<Rightarrow> Some q
      | None \<Rightarrow>
          List.find (\<lambda>q. js_includes (toLowerCase holdingSymbol) (toLowerCase (quote_symbol q))
                       \<or> js_includes (toLowerCase (quote_symbol q)) (toLowerCase holdingSymbol))
            quotes)"

text \<open>Specification 4.1: an element qualifies as a quote only if it carries a non-empty
  string symbol and a finite numeric price.\<close>

definition spec_valid_quote :: "json \<Rightarrow> bool" where
  "spec_valid_quote x =
     ((case get_prop x ''symbol'' of Inr (Some (JStr s)) \<Rightarrow> s \<noteq> [] | _ \<Rightarrow> False)
      \<and> (case get_prop x ''price'' of Inr (Some (JNum (Finite p))) \<Rightarrow> True | _ \<Rightarrow> False))"

text \<open>An element on which neither test of the two modes raises: an object whose
  \<^verbatim>\<open>symbol\<close> is a string.\<close>

definition has_string_symbol :: "json \<Rightarrow> bool" where
  "has_string_symbol x =
     (case x of
        JObj kvs \<Rightarrow> (case map_of (rev kvs) ''symbol'' of Some (JStr s) \<Rightarrow> True | _ \<Rightarrow> False)
      | _ \<Rightarrow> False)"

subsection \<open>\<^verbatim>\<open>JSON.parse\<close> for the examples\<close>

text \<open>
  The examples need \<^verbatim>\<open>JSON.parse\<close> at concrete texts. \<open>JSON_parse\<close> reads a JSON text
  over Latin-1: \<^verbatim>\<open>null\<close>, \<^verbatim>\<open>true\<close>, \<^verbatim>\<open>false\<close>, numbers with fraction and exponent,
  strings with their escapes, arrays and objects, at the top level too. It returns the
  value as \<^verbatim>\<open>JSON.parse\<close> does, and \<open>None\<close> where \<^verbatim>\<open>JSON.parse\<close> throws. Two limits
  remain: an escape \<^verbatim>\<open>\uXXXX\<close> above \<^verbatim>\<open>00FF\<close> has no character in this model and is
  refused, and \<^verbatim>\<open>-0\<close> is read as 0. The fuel bounds the nesting and the number of
  elements; the length of the text is enough.
\<close>

definition json_ws :: "char \<Rightarrow> bool" where
  "json_ws c = (let n = (of_char c :: nat) in n = 32 \<or> n = 9 \<or> n = 10 \<or> n = 13)"

definition skip_ws :: "string \<Rightarrow> string" where
  "skip_ws s = dropWhile json_ws s"

definition parse_number :: "string \<Rightarrow> (number \<times> string) option" where
  "parse_number s =
     (let neg = starts_with ''-'' s;
          s1 = (if neg then drop 1 s else s);
          ip = takeWhile is_digit s1;
          s2 = dropWhile is_digit s1;
          dot = starts_with ''.'' s2;
          fp = (if dot then takeWhile is_digit (drop 1 s2) else []);
          s3 = (if dot then dropWhile is_digit (drop 1 s2) else s2);
          ex = (starts_with ''e'' s3 \<or> starts_with ''E'' s3);
          s4 = drop 1 s3;
          eneg = starts_with ''-'' s4;
          s5 = (if starts_with ''-'' s4 \<or> starts_with ''+'' s4 then drop 1 s4 else s4);
          ed = takeWhile is_digit s5;
          m = rat_of_nat (digits_value 0 ip) + rat_of_nat (digits_value 0 fp) / 10 ^ length fp;
          v = (if \<not> ex then m
               else if eneg then m / 10 ^ digits_value 0 ed
               else m * 10 ^ digits_value 0 ed)
      in if ip = [] \<or> (1 < length ip \<and> starts_with ''0'' ip) \<or> (dot \<and> fp = [])
            \<or> (ex \<and> ed = [])
         then None
         else Some (round_double (if neg then - v else v),
                    if ex then dropWhile is_digit s5 else s3))"

text \<open>The character an escape stands for: the letter after the backslash.\<close>

definition escape_char :: "char \<Rightarrow> char option" where
  "escape_char e =
     (if e = CHR 0x22 then Some (CHR 0x22)
      else if e = CHR 0x5C then Some (CHR 0x5C)
      else if e = CHR ''/'' then Some (CHR ''/'')
      else if e = CHR ''b'' then Some (CHR 0x08)
      else if e = CHR ''f'' then Some (CHR 0x0C)
      else if e = CHR ''n'' then Some (CHR 0x0A)
      else if e = CHR ''r'' then Some (CHR 0x0D)
      else if e = CHR ''t'' then Some (CHR 0x09)
      else None)"

fun parse_string_body :: "string \<Rightarrow> (string \<times> string) option" where
  "parse_string_body [] = None"
| "parse_string_body (c # cs) =
     (if c = CHR 0x22 then Some ([], cs)
      else if (of_char c :: nat) < 32 then None
      else if c = CHR 0x5C then
        (case cs of
           [] \<Rightarrow> None
         | e # r \<Rightarrow>
             if e = CHR ''u'' then
               (case r of
                  h1 # h2 # h3 # h4 # r' \<Rightarrow>
                    (case radix_value 16 0 [h1, h2, h3, h4] of
                       None \<Rightarrow> None
                     | Some n \<Rightarrow>
                         if n < 256 then
                           (case parse_string_body r' of
                              Some (s, q) \<Rightarrow> Some (char_of n # s, q)
                            | None \<Rightarrow> None)
                         else None)
                | _ \<Rightarrow> None)
             else
               (case escape_char e of
                  None \<Rightarrow> None
                | Some x \<Rightarrow>
                    (case parse_string_body r of
                       Some (s, q) \<Rightarrow> Some (x # s, q)
                     | None \<Rightarrow> None)))
      else (case parse_string_body cs of
              Some (s, r) \<Rightarrow> Some (c # s, r)
            | None \<Rightarrow> None))"

fun parse_value :: "nat \<Rightarrow> string \<Rightarrow> (json \<times> string) option"
  and parse_elements :: "nat \<Rightarrow> string \<Rightarrow> (json list \<times> string) option"
  and parse_members :: "nat \<Rightarrow> string \<Rightarrow> ((string \<times> json) list \<times> string) option" where
  "parse_value 0 s = None"
| "parse_value (Suc n) s =
     (let t = skip_ws s
      in if starts_with ''['' t then
           (if starts_with '']'' (skip_ws (drop 1 t)) then Some (JArr [], drop 1 (skip_ws (drop 1 t)))
            else (case parse_elements n (drop 1 t) of
                    Some (xs, r) \<Rightarrow> Some (JArr xs, r)
                  | None \<Rightarrow> None))
         else if starts_with ''{'' t then
           (if starts_with ''}'' (skip_ws (drop 1 t)) then Some (JObj [], drop 1 (skip_ws (drop 1 t)))
            else (case parse_members n (drop 1 t) of
                    Some (kvs, r) \<Rightarrow> Some (JObj kvs, r)
                  | None \<Rightarrow> None))
         else if starts_with [CHR 0x22] t then
           (case parse_string_body (drop 1 t) of
              Some (str, r) \<Rightarrow> Some (JStr str, r)
            | None \<Rightarrow> None)
         else if starts_with ''null'' t then Some (JNull, drop 4 t)
         else if starts_with ''true'' t then Some (JBool True, drop 4 t)
         else if starts_with ''false'' t then Some (JBool False, drop 5 t)
         else (case parse_number t of
                 Some (x, r) \<Rightarrow> Some (JNum x, r)
               | None \<Rightarrow> None))"
| "parse_elements 0 s = None"
| "parse_elements (Suc n) s =
     (case parse_value n s of
        None \<Rightarrow> None
      | Some (v, r) \<Rightarrow>
          (let t = skip_ws r
           in if starts_with '','' t then
                (case parse_elements n (drop 1 t) of
                   Some (vs, r') \<Rightarrow> Some (v # vs, r')
                 | None \<Rightarrow> None)
              else if starts_with '']'' t then Some ([v], drop 1 t)
              else None))"
| "parse_members 0 s = None"
| "parse_members (Suc n) s =
     (let t = skip_ws s
      in if starts_with [CHR 0x22] t then
           (case parse_string_body (drop 1 t) of
              None \<Rightarrow> None
            | Some (k, r) \<Rightarrow>
                (let t1 = skip_ws r
                 in if starts_with '':'' t1 then
                      (case parse_value n (drop 1 t1) of
                         None \<Rightarrow> None
                       | Some (v, r2) \<Rightarrow>
                           (let t2 = skip_ws r2
                            in if starts_with '','' t2 then
                                 (case parse_members n (drop 1 t2) of
                                    Some (kvs, r3) \<Rightarrow> Some ((k, v) # kvs, r3)
                                  | None \<Rightarrow> None)
                               else if starts_with ''}'' t2 then Some ([(k, v)], drop 1 t2)
                               else None))
                    else None))
         else None)"

definition JSON_parse :: "string \<Rightarrow> json option" where
  "JSON_parse s =
     (case parse_value (Suc (length s)) s of
        Some (v, r) \<Rightarrow> if skip_ws r = [] then Some v else None
      | None \<Rightarrow> None)"
subsection \<open>Example responses, quotes and holdings\<close>

text \<open>A fenced block that is not JSON, followed by a bracketed array.\<close>

definition fenced_bad :: string where
  \<open>fenced_bad = ''```json not json ``` [{"symbol":"AAPL","price":1}]''\<close>

text \<open>The specification's labelled example, and its example of entry filtering.\<close>

definition labelled_array :: string where
  \<open>labelled_array = ''[{"symbol":"AAPL","price":225.3}]''\<close>

definition labelled_text :: string where
  "labelled_text = ''```json'' @ [CHR 0x0A] @ labelled_array @ [CHR 0x0A] @ ''```''"

definition entries_text :: string where
  \<open>entries_text = ''[{"symbol":"X","price":1},{"symbol":"Y"}]''\<close>



definition quote :: "string \<Rightarrow> rat \<Rightarrow> json" where
  "quote s p = JObj [(''symbol'', JStr s), (''price'', JNum (Finite p))]"

definition ex_holding :: "string \<Rightarrow> StockHolding" where
  "ex_holding s = \<lparr>symbol = s, holding_name = s, quantity = Finite 10,
                    averageCost = Finite 150, currentPrice = Some (JNum (Finite 220)),
                    lastUpdated = None\<rparr>"







section \<open>Properties of the number model\<close>

text \<open>Integers below \<open>2\<^sup>5\<^sup>3\<close> in magnitude are binary64 values, and \<open>ilog2\<close> is the
  binary exponent.\<close>

lemma round_half_even_of_int: "round_half_even (of_int m) = m"
  by (simp add: round_half_even_def)

lemma bitlen_le_53:
  assumes "0 < n" "n < 2 ^ 53"
  shows "bitlen n \<le> 53"
proof (rule ccontr)
  assume "\<not> bitlen n \<le> 53"
  then have "54 \<le> bitlen n" by simp
  have "2 ^ nat (bitlen n - 1) \<le> n" using bitlen_bounds[OF assms(1)] by simp
  moreover have "(2::int) ^ 53 \<le> 2 ^ nat (bitlen n - 1)"
    using \<open>54 \<le> bitlen n\<close> by (intro power_increasing) auto
  ultimately show False using assms(2) by linarith
qed

lemma round_double_of_int:
  assumes "\<bar>n\<bar> < 2 ^ 53"
  shows "round_double (of_int n) = Finite (of_int n)"
proof (cases "n = 0")
  case True
  then show ?thesis by (simp add: round_double_def)
next
  case False
  define k where "k = nat (- (max (ilog2 \<bar>of_int n\<bar> - 52) (- 1074)))"
  have pos: "0 < \<bar>n\<bar>" using False by simp
  have "1 \<le> \<bar>n\<bar>" using pos by linarith
  then have "(1::rat) \<le> of_int \<bar>n\<bar>" by (simp only: of_int_1_le_iff)
  then have "(1::rat) \<le> \<bar>of_int n\<bar>" by simp
  then have "ilog2 \<bar>of_int n\<bar> = bitlen \<bar>n\<bar> - 1"
    by (simp add: ilog2_def flip: of_int_abs)
  then have le: "max (ilog2 \<bar>of_int n\<bar> - 52) (- 1074) \<le> 0"
    using bitlen_le_53[OF pos assms] by simp
  then have p: "pow2 (max (ilog2 \<bar>of_int n\<bar> - 52) (- 1074)) = 1 / 2 ^ k"
    by (cases "max (ilog2 \<bar>of_int n\<bar> - 52) (- 1074) = 0") (auto simp: pow2_def k_def)
  have q: "round_half_even (rat_of_int n * 2 ^ k) = n * 2 ^ k"
    using round_half_even_of_int[of "n * 2 ^ k"] by simp
  have big: "\<not> pow2 1024 \<le> \<bar>rat_of_int n\<bar>"
  proof -
    have "\<bar>rat_of_int n\<bar> < 2 ^ 53" using assms by (metis of_int_abs of_int_less_numeral_power_cancel_iff)
    also have "(2::rat) ^ 53 \<le> 2 ^ 1024" by (intro power_increasing) auto
    finally show ?thesis by (simp add: pow2_def)
  qed
  show ?thesis
    using False big
    by (simp add: round_double_def Let_def p q)
qed

lemma pow2_nonneg: "0 \<le> e \<Longrightarrow> pow2 e = 2 ^ nat e"
  by (simp add: pow2_def)

lemma pow2_neg: "e \<le> 0 \<Longrightarrow> pow2 e = 1 / 2 ^ nat (- e)"
  by (cases "e = 0") (auto simp: pow2_def)

lemma ilog2_bounds:
  assumes "0 < x"
  shows "pow2 (ilog2 x) \<le> x \<and> x < pow2 (ilog2 x + 1)"
proof (cases "1 \<le> x")
  case True
  define n where "n = \<lfloor>x\<rfloor>"
  have n: "1 \<le> n" using True by (simp add: n_def le_floor_iff)
  then have b: "2 ^ nat (bitlen n - 1) \<le> n" "n < 2 ^ nat (bitlen n)"
    using bitlen_bounds[of n] by auto
  have pos: "1 \<le> bitlen n" using n by (simp add: bitlen_def floorlog_def)
  have L: "ilog2 x = bitlen n - 1" using True by (simp add: ilog2_def n_def)
  have "rat_of_int (2 ^ nat (bitlen n - 1)) \<le> of_int n" using b(1) by (simp only: of_int_le_iff)
  also have "\<dots> \<le> x" unfolding n_def by linarith
  finally have lo: "pow2 (ilog2 x) \<le> x" using pos by (simp add: L pow2_nonneg)
  have "x < of_int (n + 1)" unfolding n_def by linarith
  also have "rat_of_int (n + 1) \<le> of_int (2 ^ nat (bitlen n))"
    using b(2) by (simp only: of_int_le_iff)
  finally have hi: "x < pow2 (ilog2 x + 1)" using pos by (simp add: L pow2_nonneg)
  from lo hi show ?thesis ..
next
  case False
  define y where "y = 1 / x"
  define m where "m = \<lceil>y\<rceil> - 1"
  have y: "1 < y" using False assms by (simp add: y_def)
  have m: "1 \<le> m" using y by (simp add: m_def less_ceiling_iff)
  then have b: "2 ^ nat (bitlen m - 1) \<le> m" "m < 2 ^ nat (bitlen m)"
    using bitlen_bounds[of m] by auto
  have pos: "1 \<le> bitlen m" using m by (simp add: bitlen_def floorlog_def)
  have L: "ilog2 x = - bitlen m" using False by (simp add: ilog2_def m_def y_def)
  have "y \<le> of_int (m + 1)" unfolding m_def by simp
  also have "rat_of_int (m + 1) \<le> of_int (2 ^ nat (bitlen m))"
    using b(2) by (simp only: of_int_le_iff)
  finally have "y \<le> 2 ^ nat (bitlen m)" by simp
  then have lo: "pow2 (ilog2 x) \<le> x"
    using assms pos by (simp add: L pow2_neg y_def field_simps)
  have "rat_of_int (2 ^ nat (bitlen m - 1)) \<le> of_int m" using b(1) by (simp only: of_int_le_iff)
  also have "rat_of_int m < y" unfolding m_def by linarith
  finally have "2 ^ nat (bitlen m - 1) < y" by simp
  moreover have "nat (- (1 - bitlen m)) = nat (bitlen m - 1)" by simp
  ultimately have hi: "x < pow2 (ilog2 x + 1)"
    using assms pos by (simp add: L pow2_neg y_def field_simps)
  from lo hi show ?thesis ..
qed

lemma pow2_pos: "0 < pow2 e"
  by (simp add: pow2_def)

lemma pow2_add: "pow2 (a + b) = pow2 a * pow2 b"
proof -
  have p: "pow2 e = 2 powi e" for e
    by (auto simp: pow2_def power_int_def inverse_eq_divide power_one_over)
  show ?thesis unfolding p by (rule power_int_add) simp
qed

lemma pow2_mono: "a \<le> b \<Longrightarrow> pow2 a \<le> pow2 b"
proof -
  assume ab: "a \<le> b"
  define k where "k = nat (b - a)"
  have k: "b = a + int k" using ab by (simp add: k_def)
  have "pow2 (int k) = 2 ^ k" by (simp add: pow2_def)
  then have "1 \<le> pow2 (int k)" by simp
  then have "pow2 a * 1 \<le> pow2 a * pow2 (int k)"
    using pow2_pos[of a] by (intro mult_left_mono) auto
  then show ?thesis by (simp add: k pow2_add)
qed

lemma round_half_even_cases:
  fixes x :: rat
  defines "f \<equiv> \<lfloor>x\<rfloor>"
  defines "d \<equiv> x - of_int \<lfloor>x\<rfloor>"
  shows "round_half_even x =
           (if d < 1 / 2 then f else if 1 / 2 < d then f + 1 else if even f then f else f + 1)"
  unfolding round_half_even_def Let_def f_def d_def by (rule refl)

lemma round_half_even_close: "\<bar>of_int (round_half_even x) - x\<bar> \<le> 1 / 2"
proof -
  define f where "f = \<lfloor>x\<rfloor>"
  define d where "d = x - of_int \<lfloor>x\<rfloor>"
  have d: "0 \<le> d" "d < 1" unfolding d_def by linarith+
  have x: "x = of_int f + d" by (simp add: d_def f_def)
  have r: "round_half_even x =
           (if d < 1 / 2 then f else if 1 / 2 < d then f + 1 else if even f then f else f + 1)"
    unfolding f_def d_def by (rule round_half_even_cases)
  define n where "n = round_half_even x"
  have "\<bar>of_int n - x\<bar> \<le> 1 / 2"
  proof -
    consider "d < 1 / 2" | "1 / 2 < d" | "d = 1 / 2" by linarith
    then show ?thesis
    proof cases
      case 1
      then have "n = f" by (simp add: n_def r)
      then show ?thesis using d 1 x by simp
    next
      case 2
      then have "n = f + 1" by (simp add: n_def r)
      then show ?thesis using d 2 x by simp
    next
      case 3
      then have "n = f \<or> n = f + 1" by (simp add: n_def r)
      then show ?thesis using 3 x by auto
    qed
  qed
  then show ?thesis by (simp add: n_def)
qed

lemma round_half_even_bound:
  assumes "\<bar>x\<bar> \<le> of_int k"
  shows "\<bar>round_half_even x\<bar> \<le> k"
proof -
  define f where "f = \<lfloor>x\<rfloor>"
  define d where "d = x - of_int \<lfloor>x\<rfloor>"
  have d: "0 \<le> d" "d < 1" unfolding d_def by linarith+
  have x: "x = of_int f + d" by (simp add: d_def f_def)
  have r: "round_half_even x =
           (if d < 1 / 2 then f else if 1 / 2 < d then f + 1 else if even f then f else f + 1)"
    unfolding f_def d_def by (rule round_half_even_cases)
  have xk: "rat_of_int (- k) \<le> x" "x \<le> of_int k"
    using assms by (auto simp: abs_le_iff)
  have lo: "- k \<le> f"
    using xk(1) unfolding f_def by (simp only: le_floor_iff)
  have "rat_of_int f \<le> of_int k" using xk(2) d unfolding x by linarith
  then have hi: "f \<le> k" by (simp only: of_int_le_iff)
  have top: "d = 0" if "f = k"
    using xk(2) d that unfolding x by simp
  have "round_half_even x = f \<or> (round_half_even x = f + 1 \<and> 1 / 2 \<le> d)"
    by (auto simp: r)
  then show ?thesis
  proof
    assume "round_half_even x = f"
    with lo hi show ?thesis by simp
  next
    assume a: "round_half_even x = f + 1 \<and> 1 / 2 \<le> d"
    with top have "f \<noteq> k" by auto
    with lo hi a show ?thesis by simp
  qed
qed

text \<open>
  A finite result of \<open>round_double\<close> has a significand of at most 53 bits at an exponent
  not below -1074, and lies within half a unit of that exponent from the exact value: it
  is a binary64 value nearest to it.
\<close>

lemma round_double_nearest:
  assumes "round_double x = Finite y" "x \<noteq> 0"
  shows "\<exists>m e. y = of_int m * pow2 e \<and> - 1074 \<le> e \<and> \<bar>m\<bar> \<le> 2 ^ 53
               \<and> \<bar>y - x\<bar> \<le> pow2 e / 2"
proof -
  define e where "e = max (ilog2 \<bar>x\<bar> - 52) (- 1074)"
  define m where "m = round_half_even (x / pow2 e)"
  have y: "y = of_int m * pow2 e"
    using assms by (simp add: round_double_def Let_def e_def m_def split: if_splits)
  have e: "- 1074 \<le> e" by (simp add: e_def)
  have "\<bar>x\<bar> < pow2 (ilog2 \<bar>x\<bar> + 1)"
    using ilog2_bounds[of "\<bar>x\<bar>"] assms(2) by simp
  also have "\<dots> \<le> pow2 (e + 53)" by (intro pow2_mono) (simp add: e_def)
  also have "\<dots> = pow2 e * 2 ^ 53" by (simp add: pow2_add) (simp add: pow2_def)
  finally have "\<bar>x\<bar> / pow2 e < 2 ^ 53"
    using pow2_pos[of e] by (simp add: field_simps)
  then have "\<bar>x / pow2 e\<bar> \<le> of_int (2 ^ 53)"
    using pow2_pos[of e] by (simp add: abs_divide)
  then have mb: "\<bar>m\<bar> \<le> 2 ^ 53"
    unfolding m_def by (rule round_half_even_bound)
  have "y - x = (of_int m - x / pow2 e) * pow2 e"
    using pow2_pos[of e] by (simp add: y field_simps)
  then have "\<bar>y - x\<bar> = \<bar>of_int m - x / pow2 e\<bar> * pow2 e"
    using pow2_pos[of e] by (simp add: abs_mult)
  also have "\<dots> \<le> (1 / 2) * pow2 e"
    using round_half_even_close[of "x / pow2 e"] pow2_pos[of e]
    by (intro mult_right_mono) (auto simp: m_def)
  finally have "\<bar>y - x\<bar> \<le> pow2 e / 2" by simp
  with y e mb show ?thesis by blast
qed

section \<open>Properties of the ledger\<close>


lemma findIndex_NoneD: "findIndex P xs = None \<Longrightarrow> \<forall>x\<in>set xs. \<not> P x"
  by (induction xs) (auto split: if_splits)


lemma update_as_map:
  assumes "distinct (map key xs)" "findIndex (\<lambda>a. key a = k) xs = Some i"
  shows "xs[i := f (xs ! i)] = map (\<lambda>a. if key a = k then f a else a) xs"
  using assms
proof (induction xs arbitrary: i)
  case Nil
  then show ?case by simp
next
  case (Cons x xs)
  show ?case
  proof (cases "key x = k")
    case True
    with Cons.prems have "i = 0" by simp
    moreover have "map (\<lambda>a. if key a = k then f a else a) xs = xs"
    proof (intro map_idI)
      fix a assume "a \<in> set xs"
      then have "key a \<in> set (map key xs)" by simp
      with Cons.prems(1) True have "key a \<noteq> k" by auto
      then show "(if key a = k then f a else a) = a" by simp
    qed
    ultimately show ?thesis using True by simp
  next
    case False
    with Cons.prems obtain j where j: "findIndex (\<lambda>a. key a = k) xs = Some j" "i = Suc j"
      by auto
    with Cons.IH[of j] Cons.prems(1) False show ?thesis by simp
  qed
qed

lemma none_as_map:
  assumes "findIndex (\<lambda>a. key a = k) xs = None"
  shows "map (\<lambda>a. if key a = k then f a else a) xs = xs"
  using findIndex_NoneD[OF assms] by (intro map_idI) auto

lemma js_sub_add_exact:
  assumes "is_double b" "is_double (b + s)"
  shows "js_sub (js_add (Finite b) (Finite s)) (Finite s) = Finite b"
  using assms by (simp add: js_sub_def is_double_def)

lemma signed_Finite: "signed ty (Finite a) = Finite (if ty = Income then a else - a)"
  by (simp add: signed_def)


lemma double_tenth: "round_double (1 / 10) = Finite (3602879701896397 / 36028797018963968)"
  by code_simp

lemma double_fifth: "round_double (1 / 5) = Finite (3602879701896397 / 18014398509481984)"
  by code_simp

lemma double_tenth_plus_fifth:
  "round_double (10808639105689191 / 36028797018963968)
     = Finite (1351079888211149 / 4503599627370496)"
  by code_simp


lemma is_double_of_int: "\<bar>n\<bar> < 2 ^ 53 \<Longrightarrow> is_double (of_int n)"
  by (simp add: is_double_def round_double_of_int)

lemma exact_add_of_int:
  "\<bar>m + n\<bar> < 2 ^ 53 \<Longrightarrow> exact_add (Finite (of_int m)) (Finite (of_int n))"
  using is_double_of_int[of "m + n"] by (simp add: exact_add_def)

lemma is_double_5000: "is_double 5000" using is_double_of_int[of 5000] by simp
lemma is_double_6000: "is_double 6000" using is_double_of_int[of 6000] by simp
lemma is_double_4000: "is_double 4000" using is_double_of_int[of 4000] by simp



text \<open>
  The persisted mode computes the same sums from the account it has read: when the
  account read by the revert carries the balance that the apply has written, the revert
  writes the old balance back.
\<close>

lemma round_trip_exact_persisted:
  assumes amt: "new_amount n = Some (Finite a)" "a \<noteq> 0"
      and aid: "new_accountId n = Some aid" "aid \<noteq> []"
      and cat: "new_category n = Some cat" "cat \<noteq> []"
      and acc: "List.find (\<lambda>x. account_id x = aid) (accounts st) = Some account"
      and bal: "balance account = Finite b"
      and dbl: "is_double b"
      and exact: "exact_add (balance account) (signed (new_type n) (Finite a))"
      and seen: "List.find (\<lambda>x. account_id x = aid) (accounts st') =
                   Some (account\<lparr>balance := js_add (balance account) (signed (new_type n) (Finite a))\<rparr>)"
  shows "handleSaveTransaction False True fresh now n st =
           (st, [AddTransaction (txData fresh now n (Finite a) aid cat),
                 SetBalance (account_id account)
                   (js_add (balance account) (signed (new_type n) (Finite a)))])
       \<and> deleteTransaction False True True (txData fresh now n (Finite a) aid cat) st' =
           (st', [DeleteTransaction fresh, SetBalance (account_id account) (Finite b)])"
proof -
  define s where "s = (if new_type n = Income then a else - a)"
  have sg: "signed (new_type n) (Finite a) = Finite s"
    by (simp add: signed_Finite s_def)
  have ex: "is_double (b + s)"
    using exact by (simp add: exact_add_def bal sg)
  have 1: "handleSaveTransaction False True fresh now n st =
           (st, [AddTransaction (txData fresh now n (Finite a) aid cat),
                 SetBalance (account_id account)
                   (js_add (balance account) (signed (new_type n) (Finite a)))])"
    by (simp add: handleSaveTransaction_def amt aid cat acc)
  have 2: "deleteTransaction False True True (txData fresh now n (Finite a) aid cat) st' =
           (st', [DeleteTransaction fresh, SetBalance (account_id account) (Finite b)])"
    using js_sub_add_exact[OF dbl ex]
    by (simp add: deleteTransaction_def txData_def seen bal sg)
  from 1 2 show ?thesis by simp
qed

lemma apply_demo_shape:
  assumes dist: "distinct (map account_id (accounts st))"
      and amt: "new_amount n = Some amt" "truthy_number (Some amt)"
      and aid: "new_accountId n = Some aid" "aid \<noteq> []"
      and cat: "new_category n = Some cat" "cat \<noteq> []"
  shows "fst (handleSaveTransaction True db fresh now n st) =
             st\<lparr>transactions := txData fresh now n amt aid cat # transactions st,
                accounts := map (\<lambda>acc. if account_id acc = aid
                    then acc\<lparr>balance := js_add (balance acc) (signed (new_type n) amt)\<rparr>
                    else acc) (accounts st)\<rparr>"
proof (cases "findIndex (\<lambda>a. account_id a = aid) (accounts st)")
  case None
  then show ?thesis
    using amt aid cat none_as_map[OF None]
    by (simp add: handleSaveTransaction_def)
next
  case (Some i)
  then show ?thesis
    using amt aid cat
      update_as_map[OF dist Some, where f = "\<lambda>acc. acc\<lparr>balance :=
          js_add (balance acc) (signed (new_type n) amt)\<rparr>"]
    by (simp add: handleSaveTransaction_def)
qed

lemma revert_demo_shape:
  assumes dist: "distinct (map account_id (accounts st))"
  shows "fst (deleteTransaction True db True t st) =
           st\<lparr>transactions := filter (\<lambda>tr. tx_id tr \<noteq> tx_id t) (transactions st),
              accounts := map (\<lambda>acc. if account_id acc = accountId t
                  then acc\<lparr>balance := js_sub (balance acc) (signed (tx_type t) (amount t))\<rparr>
                  else acc) (accounts st)\<rparr>"
proof (cases "findIndex (\<lambda>a. account_id a = accountId t) (accounts st)")
  case None
  then show ?thesis
    using none_as_map[OF None]
    by (simp add: deleteTransaction_def)
next
  case (Some i)
  then show ?thesis
    using update_as_map[OF dist Some, where f = "\<lambda>acc. acc\<lparr>balance :=
          js_sub (balance acc) (signed (tx_type t) (amount t))\<rparr>"]
    by (simp add: deleteTransaction_def)
qed

lemma sum_without:
  assumes "distinct (map key xs)" "t \<in> set xs"
  shows "sum_list (map f (filter Q (filter (\<lambda>x. key x \<noteq> key t) xs)))
           = sum_list (map f (filter Q xs)) - (if Q t then f t else (0::rat))"
  using assms
proof (induction xs)
  case Nil
  then show ?case by simp
next
  case (Cons x xs)
  show ?case
  proof (cases "x = t")
    case True
    have "filter (\<lambda>x. key x \<noteq> key t) xs = xs"
    proof (intro filter_True ballI)
      fix y assume "y \<in> set xs"
      then have "key y \<in> set (map key xs)" by simp
      with Cons.prems(1) True show "key y \<noteq> key t" by auto
    qed
    then show ?thesis using True by simp
  next
    case False
    with Cons.prems have "t \<in> set xs" by simp
    moreover from this Cons.prems(1) have "key x \<noteq> key t" by force
    ultimately show ?thesis using Cons.IH Cons.prems(1) by simp
  qed
qed

lemma signed_effects_Cons:
  "signed_effects (tx # txs) k
     = (if accountId tx = k then signed_value tx else 0) + signed_effects txs k"
  by (simp add: signed_effects_def)

lemma signed_effects_remove:
  assumes "distinct (map tx_id txs)" "t \<in> set txs"
  shows "signed_effects (filter (\<lambda>tr. tx_id tr \<noteq> tx_id t) txs) k
     = signed_effects txs k - (if accountId t = k then signed_value t else 0)"
  unfolding signed_effects_def
  using sum_without[OF assms, of signed_value "\<lambda>x. accountId x = k"] by simp

lemma integrity_step:
  assumes inv: "ledger_integrity ob st"
      and accs: "accounts st' = map (\<lambda>acc. if account_id acc = k
                    then acc\<lparr>balance := g acc\<rparr> else acc) (accounts st)"
      and other: "\<And>j. j \<noteq> k \<Longrightarrow>
                    signed_effects (transactions st') j = signed_effects (transactions st) j"
      and same: "\<And>acc. acc \<in> set (accounts st) \<Longrightarrow> account_id acc = k \<Longrightarrow>
                    g acc = Finite (ob k + signed_effects (transactions st') k)"
  shows "ledger_integrity ob st'"
  unfolding ledger_integrity_def list_all_iff
proof
  fix a' assume "a' \<in> set (accounts st')"
  then obtain acc where acc: "acc \<in> set (accounts st)"
    and a': "a' = (if account_id acc = k then acc\<lparr>balance := g acc\<rparr> else acc)"
    unfolding accs by auto
  from inv acc have b: "balance acc =
      Finite (ob (account_id acc) + signed_effects (transactions st) (account_id acc))"
    by (simp add: ledger_integrity_def list_all_iff)
  show "balance a' = Finite (ob (account_id a') + signed_effects (transactions st') (account_id a'))"
  proof (cases "account_id acc = k")
    case True
    then show ?thesis using same[OF acc True] a' by simp
  next
    case False
    then show ?thesis using other[OF False] a' b by simp
  qed
qed

lemma signed_value_signed:
  "signed (tx_type t) (amount t) = Finite s \<Longrightarrow> signed_value t = s"
  by (cases "amount t") (auto simp: signed_value_def signed_def split: if_splits)

text \<open>
  Claim C2, amended. In demo mode, with account identifiers distinct, ledger integrity
  is kept by every apply whose balance addition is exact, and by every revert of a
  transaction that is in the collection (transaction identifiers distinct) whose balance
  subtraction is exact. It says nothing for a revert of a transaction that is not in the
  collection.
\<close>

theorem ledger_integrity_preserved:
  assumes inv: "ledger_integrity ob st"
      and dist: "distinct (map account_id (accounts st))"
  shows "(new_amount n = Some amt \<and> new_accountId n = Some aid \<and>
          (\<forall>acc\<in>set (accounts st). account_id acc = aid \<longrightarrow>
               exact_add (balance acc) (signed (new_type n) amt))
          \<longrightarrow> ledger_integrity ob (fst (handleSaveTransaction True db fresh now n st)))
       \<and> (t \<in> set (transactions st) \<and> distinct (map tx_id (transactions st)) \<and>
          (\<forall>acc\<in>set (accounts st). account_id acc = accountId t \<longrightarrow>
               exact_add (balance acc) (js_neg (signed (tx_type t) (amount t))))
          \<longrightarrow> ledger_integrity ob (fst (deleteTransaction True db True t st)))"
proof (intro conjI impI)
  assume h: "new_amount n = Some amt \<and> new_accountId n = Some aid \<and>
          (\<forall>acc\<in>set (accounts st). account_id acc = aid \<longrightarrow>
               exact_add (balance acc) (signed (new_type n) amt))"
  show "ledger_integrity ob (fst (handleSaveTransaction True db fresh now n st))"
  proof (cases "truthy_number (new_amount n) \<and> truthy_string (new_accountId n)
                  \<and> truthy_string (new_category n)")
    case False
    then have "fst (handleSaveTransaction True db fresh now n st) = st"
      by (auto simp: handleSaveTransaction_def)
    with inv show ?thesis by simp
  next
    case True
    with h obtain cat where c: "new_category n = Some cat" "cat \<noteq> []"
      by (cases "new_category n") auto
    from True h have a: "truthy_number (Some amt)" "aid \<noteq> []" by auto
    define tx where "tx = txData fresh now n amt aid cat"
    have tx: "accountId tx = aid" "amount tx = amt" "tx_type tx = new_type n"
      by (simp_all add: tx_def txData_def)
    define st' where "st' = fst (handleSaveTransaction True db fresh now n st)"
    have st': "st' = st\<lparr>transactions := tx # transactions st,
                accounts := map (\<lambda>acc. if account_id acc = aid
                    then acc\<lparr>balance := js_add (balance acc) (signed (new_type n) amt)\<rparr>
                    else acc) (accounts st)\<rparr>"
      unfolding tx_def st'_def using h by (intro apply_demo_shape[OF dist _ a(1) _ a(2) c]) auto
    have "ledger_integrity ob st'"
    proof (rule integrity_step[OF inv, where k = aid
          and g = "\<lambda>acc. js_add (balance acc) (signed (new_type n) amt)"])
      show "accounts st' = map (\<lambda>acc. if account_id acc = aid
                    then acc\<lparr>balance := js_add (balance acc) (signed (new_type n) amt)\<rparr>
                    else acc) (accounts st)"
        by (simp add: st')
    next
      fix j assume "j \<noteq> aid"
      then show "signed_effects (transactions st') j = signed_effects (transactions st) j"
        by (simp add: st' signed_effects_Cons tx)
    next
      fix acc assume acc: "acc \<in> set (accounts st)" "account_id acc = aid"
      from inv acc have b: "balance acc = Finite (ob aid + signed_effects (transactions st) aid)"
        by (auto simp: ledger_integrity_def list_all_iff)
      from h acc have "exact_add (balance acc) (signed (new_type n) amt)" by blast
      then obtain s where s: "signed (new_type n) amt = Finite s"
        "is_double (ob aid + signed_effects (transactions st) aid + s)"
        by (auto simp: exact_add_def b split: number.splits)
      have "signed_value tx = s"
        using s(1) tx by (intro signed_value_signed) simp
      then show "js_add (balance acc) (signed (new_type n) amt)
                   = Finite (ob aid + signed_effects (transactions st') aid)"
        using s b by (simp add: st' signed_effects_Cons tx is_double_def add.commute add.left_commute)
    qed
    then show ?thesis by (simp add: st'_def)
  qed
next
  assume h: "t \<in> set (transactions st) \<and> distinct (map tx_id (transactions st)) \<and>
          (\<forall>acc\<in>set (accounts st). account_id acc = accountId t \<longrightarrow>
               exact_add (balance acc) (js_neg (signed (tx_type t) (amount t))))"
  define st' where "st' = fst (deleteTransaction True db True t st)"
  have st': "st' = st\<lparr>transactions := filter (\<lambda>tr. tx_id tr \<noteq> tx_id t) (transactions st),
              accounts := map (\<lambda>acc. if account_id acc = accountId t
                  then acc\<lparr>balance := js_sub (balance acc) (signed (tx_type t) (amount t))\<rparr>
                  else acc) (accounts st)\<rparr>"
    unfolding st'_def by (rule revert_demo_shape[OF dist])
  have rm: "\<And>k. signed_effects (transactions st') k
      = signed_effects (transactions st) k - (if accountId t = k then signed_value t else 0)"
    using h by (simp add: st' signed_effects_remove)
  have "ledger_integrity ob st'"
  proof (rule integrity_step[OF inv, where k = "accountId t"
        and g = "\<lambda>acc. js_sub (balance acc) (signed (tx_type t) (amount t))"])
    show "accounts st' = map (\<lambda>acc. if account_id acc = accountId t
                  then acc\<lparr>balance := js_sub (balance acc) (signed (tx_type t) (amount t))\<rparr>
                  else acc) (accounts st)"
      by (simp add: st')
  next
    fix j assume "j \<noteq> accountId t"
    then show "signed_effects (transactions st') j = signed_effects (transactions st) j"
      by (auto simp: rm)
  next
    fix acc assume acc: "acc \<in> set (accounts st)" "account_id acc = accountId t"
    from inv acc have b: "balance acc =
        Finite (ob (accountId t) + signed_effects (transactions st) (accountId t))"
      by (auto simp: ledger_integrity_def list_all_iff)
    from h acc have "exact_add (balance acc) (js_neg (signed (tx_type t) (amount t)))" by blast
    then obtain s where s: "js_neg (signed (tx_type t) (amount t)) = Finite s"
      "is_double (ob (accountId t) + signed_effects (transactions st) (accountId t) + s)"
      by (auto simp: exact_add_def b split: number.splits)
    from s(1) have sg: "signed (tx_type t) (amount t) = Finite (- s)"
      by (cases "signed (tx_type t) (amount t)") auto
    have sv: "signed_value t = - s"
      by (rule signed_value_signed[OF sg])
    show "js_sub (balance acc) (signed (tx_type t) (amount t))
            = Finite (ob (accountId t) + signed_effects (transactions st') (accountId t))"
      using s b sv by (simp add: rm js_sub_def is_double_def)
  qed
  then show "ledger_integrity ob (fst (deleteTransaction True db True t st))"
    by (simp add: st'_def)
qed

lemma is_double_3500: "is_double 3500" using is_double_of_int[of 3500] by simp
lemma is_double_5005: "is_double 5005" using is_double_of_int[of 5005] by simp

lemma dr_applied_eq:
  "dr_applied = \<lparr>accounts = [ex_account (Finite 6000)],
                  transactions = [ex_tx Income (Finite 1000)]\<rparr>"
  using is_double_6000
  by (simp add: dr_applied_def handleSaveTransaction_def txData_def ex_newTx_def ex_ledger_def
      ex_account_def ex_tx_def signed_def is_double_def)



text \<open>The theorem on the ledger that holds 6000 after an Income of 1000 on an opening
  balance of 5000: an Expense of 2500 is applied, and the Income is reverted.\<close>

theorem ledger_integrity_preserved_witness:
  "ledger_integrity ex_opening dr_applied \<and> ledger_integrity ex_opening dr_spent
   \<and> ledger_integrity ex_opening dr_reverted"
proof -
  have inv: "ledger_integrity ex_opening dr_applied"
    by (simp add: dr_applied_eq ledger_integrity_def signed_effects_def signed_value_def
        ex_opening_def ex_account_def ex_tx_def)
  have dist: "distinct (map account_id (accounts dr_applied))"
    by (simp add: dr_applied_eq)
  have a: "new_amount (ex_newTx Expense (Finite 2500)) = Some (Finite 2500)
      \<and> new_accountId (ex_newTx Expense (Finite 2500)) = Some ''1''
      \<and> (\<forall>acc\<in>set (accounts dr_applied). account_id acc = ''1'' \<longrightarrow>
           exact_add (balance acc) (signed (new_type (ex_newTx Expense (Finite 2500))) (Finite 2500)))"
    using is_double_3500
    by (simp add: ex_newTx_def dr_applied_eq ex_account_def exact_add_def signed_def)
  have r: "ex_tx Income (Finite 1000) \<in> set (transactions dr_applied)
      \<and> distinct (map tx_id (transactions dr_applied))
      \<and> (\<forall>acc\<in>set (accounts dr_applied). account_id acc = accountId (ex_tx Income (Finite 1000)) \<longrightarrow>
           exact_add (balance acc) (js_neg (signed (tx_type (ex_tx Income (Finite 1000)))
              (amount (ex_tx Income (Finite 1000))))))"
    using is_double_5000
    by (simp add: dr_applied_eq ex_account_def ex_tx_def exact_add_def signed_def)
  from ledger_integrity_preserved[OF inv dist, where n = "ex_newTx Expense (Finite 2500)"
      and amt = "Finite 2500" and aid = "''1''" and t = "ex_tx Income (Finite 1000)"
      and db = False and fresh = "''t2''" and now = "''2023-10-06''"] a r
  have "ledger_integrity ex_opening dr_spent \<and> ledger_integrity ex_opening dr_reverted"
    unfolding dr_spent_def dr_reverted_def by blast
  with inv show ?thesis by simp
qed

text \<open>
  Claim C2 as stated fails for a revert of a transaction that was never applied: the
  balance goes from 5000 to 4000 while no transaction references the account. It also
  fails for an apply whose addition rounds: the opening balance 0.1 and an Income of 0.2
  give the balance 0.30000000000000004, which is not the exact sum of the two.
\<close>

theorem ledger_integrity_counterexample:
  "ledger_integrity ex_opening (ex_ledger (Finite 5000))
   \<and> \<not> ledger_integrity ex_opening na_reverted
   \<and> ledger_integrity tenth_opening rt_before
   \<and> \<not> ledger_integrity tenth_opening rt_applied"
proof -
  have eq: "na_reverted = \<lparr>accounts = [ex_account (Finite 4000)], transactions = []\<rparr>"
    using is_double_4000
    by (simp add: na_reverted_def deleteTransaction_def ex_ledger_def
        ex_account_def ex_tx_def signed_def js_sub_def is_double_def)
  have applied: "rt_applied =
      \<lparr>accounts = [ex_account (Finite (1351079888211149 / 4503599627370496))],
       transactions = [ex_tx Income (Finite (3602879701896397 / 18014398509481984))]\<rparr>"
    by (simp add: rt_applied_def rt_before_def handleSaveTransaction_def txData_def ex_newTx_def
        ex_ledger_def ex_account_def ex_tx_def ex_tenth_def ex_fifth_def double_tenth
        double_fifth signed_def double_tenth_plus_fifth)
  have 1: "ledger_integrity ex_opening (ex_ledger (Finite 5000))"
    by (simp add: ledger_integrity_def signed_effects_def ex_opening_def ex_ledger_def
        ex_account_def)
  have 2: "\<not> ledger_integrity ex_opening na_reverted"
    by (simp add: eq ledger_integrity_def signed_effects_def ex_opening_def ex_account_def)
  have 3: "ledger_integrity tenth_opening rt_before"
    by (simp add: rt_before_def ledger_integrity_def signed_effects_def tenth_opening_def
        ex_ledger_def ex_account_def ex_tenth_def double_tenth)
  have 4: "\<not> ledger_integrity tenth_opening rt_applied"
    by (simp add: applied ledger_integrity_def signed_effects_def signed_value_def
        tenth_opening_def ex_account_def ex_tx_def)
  from 1 2 3 4 show ?thesis by simp
qed

text \<open>
  Claim C3, amended. A submission is ignored, in every mode, without any error and
  without any change of state or any write request, exactly when its amount is missing,
  zero or NaN, or its account identifier or its category is missing or empty. Every
  other submission, whatever the sign of its amount and whether or not its account
  identifier resolves, is treated by mode. In demo mode the transaction built from it is
  put in front of the collection and nothing is written; the first account with the
  identifier gets the signed amount added to its balance, and when there is no such
  account no account changes. In the persisted mode with a store the state is left as it
  is and the request to add the transaction is sent, followed by the request that sets
  the balance of the first account with the identifier, or by nothing when there is no
  such account. With neither demo mode nor a store the submission is dropped: nothing
  is recorded and nothing is written.
\<close>

theorem apply_guard:
  "(\<not> (truthy_number (new_amount n) \<and> truthy_string (new_accountId n)
          \<and> truthy_string (new_category n))
      \<longrightarrow> handleSaveTransaction isDemoMode db fresh now n st = (st, []))
   \<and> (truthy_number (new_amount n) \<and> truthy_string (new_accountId n)
          \<and> truthy_string (new_category n)
      \<longrightarrow> (let t = txData fresh now n (the (new_amount n)) (the (new_accountId n))
                       (the (new_category n));
               r = handleSaveTransaction isDemoMode db fresh now n st
           in new_amount n = Some (amount t) \<and> new_accountId n = Some (accountId t)
              \<and> new_category n = Some (category t) \<and> tx_type t = new_type n
              \<and> (isDemoMode \<longrightarrow>
                    transactions (fst r) = t # transactions st \<and> snd r = []
                  \<and> (findIndex (\<lambda>a. account_id a = accountId t) (accounts st) = None
                        \<longrightarrow> accounts (fst r) = accounts st)
                  \<and> (\<forall>i. findIndex (\<lambda>a. account_id a = accountId t) (accounts st) = Some i
                        \<longrightarrow> accounts (fst r)
                            = (accounts st)[i := (accounts st ! i)
                                 \<lparr>balance := js_add (balance (accounts st ! i))
                                                  (signed (tx_type t) (amount t))\<rparr>]))
              \<and> (\<not> isDemoMode \<and> db \<longrightarrow>
                    fst r = st
                  \<and> (List.find (\<lambda>a. account_id a = accountId t) (accounts st) = None
                        \<longrightarrow> snd r = [AddTransaction t])
                  \<and> (\<forall>a. List.find (\<lambda>a. account_id a = accountId t) (accounts st) = Some a
                        \<longrightarrow> snd r = [AddTransaction t,
                                     SetBalance (account_id a)
                                       (js_add (balance a) (signed (tx_type t) (amount t)))]))
              \<and> (\<not> isDemoMode \<and> \<not> db \<longrightarrow> r = (st, []))))"
proof (intro conjI impI)
  assume "\<not> (truthy_number (new_amount n) \<and> truthy_string (new_accountId n)
          \<and> truthy_string (new_category n))"
  then show "handleSaveTransaction isDemoMode db fresh now n st = (st, [])"
    unfolding handleSaveTransaction_def by (simp only: if_False)
next
  assume g: "truthy_number (new_amount n) \<and> truthy_string (new_accountId n)
          \<and> truthy_string (new_category n)"
  then obtain amt aid cat where v: "new_amount n = Some amt" "new_accountId n = Some aid"
    "new_category n = Some cat"
    by (cases "new_amount n"; cases "new_accountId n"; cases "new_category n") auto
  define t where "t = txData fresh now n amt aid cat"
  have t: "amount t = amt" "accountId t = aid" "category t = cat" "tx_type t = new_type n"
    by (simp_all add: t_def txData_def)
  have demo: "handleSaveTransaction True db fresh now n st
      = (case findIndex (\<lambda>a. account_id a = aid) (accounts st) of
           Some i \<Rightarrow> (st\<lparr>transactions := t # transactions st,
                         accounts := (accounts st)[i := (accounts st ! i)
                            \<lparr>balance := js_add (balance (accounts st ! i))
                                             (signed (new_type n) amt)\<rparr>]\<rparr>, [])
         | None \<Rightarrow> (st\<lparr>transactions := t # transactions st\<rparr>, []))"
    unfolding t_def using g v by (simp add: handleSaveTransaction_def Let_def)
  have live: "handleSaveTransaction False True fresh now n st
      = (st, AddTransaction t #
             (case List.find (\<lambda>a. account_id a = aid) (accounts st) of
                Some account \<Rightarrow>
                  [SetBalance (account_id account)
                     (js_add (balance account) (signed (new_type n) amt))]
              | None \<Rightarrow> []))"
    unfolding t_def using g v by (simp add: handleSaveTransaction_def Let_def)
  have neither: "handleSaveTransaction False False fresh now n st = (st, [])"
    using g v by (simp add: handleSaveTransaction_def)
  have d: "isDemoMode \<Longrightarrow>
      transactions (fst (handleSaveTransaction isDemoMode db fresh now n st))
        = t # transactions st
      \<and> snd (handleSaveTransaction isDemoMode db fresh now n st) = []
      \<and> (findIndex (\<lambda>a. account_id a = aid) (accounts st) = None
            \<longrightarrow> accounts (fst (handleSaveTransaction isDemoMode db fresh now n st))
                = accounts st)
      \<and> (\<forall>i. findIndex (\<lambda>a. account_id a = aid) (accounts st) = Some i
            \<longrightarrow> accounts (fst (handleSaveTransaction isDemoMode db fresh now n st))
                = (accounts st)[i := (accounts st ! i)
                     \<lparr>balance := js_add (balance (accounts st ! i))
                                      (signed (new_type n) amt)\<rparr>])"
    by (cases "findIndex (\<lambda>a. account_id a = aid) (accounts st)") (simp_all add: demo)
  have l: "\<not> isDemoMode \<and> db \<Longrightarrow>
      fst (handleSaveTransaction isDemoMode db fresh now n st) = st
      \<and> (List.find (\<lambda>a. account_id a = aid) (accounts st) = None
            \<longrightarrow> snd (handleSaveTransaction isDemoMode db fresh now n st) = [AddTransaction t])
      \<and> (\<forall>a. List.find (\<lambda>a. account_id a = aid) (accounts st) = Some a
            \<longrightarrow> snd (handleSaveTransaction isDemoMode db fresh now n st)
                = [AddTransaction t,
                   SetBalance (account_id a) (js_add (balance a) (signed (new_type n) amt))])"
    by (cases "List.find (\<lambda>a. account_id a = aid) (accounts st)") (simp_all add: live)
  have e: "\<not> isDemoMode \<and> \<not> db \<Longrightarrow>
      handleSaveTransaction isDemoMode db fresh now n st = (st, [])"
    by (simp add: neither)
  show "let t = txData fresh now n (the (new_amount n)) (the (new_accountId n))
                       (the (new_category n));
               r = handleSaveTransaction isDemoMode db fresh now n st
           in new_amount n = Some (amount t) \<and> new_accountId n = Some (accountId t)
              \<and> new_category n = Some (category t) \<and> tx_type t = new_type n
              \<and> (isDemoMode \<longrightarrow>
                    transactions (fst r) = t # transactions st \<and> snd r = []
                  \<and> (findIndex (\<lambda>a. account_id a = accountId t) (accounts st) = None
                        \<longrightarrow> accounts (fst r) = accounts st)
                  \<and> (\<forall>i. findIndex (\<lambda>a. account_id a = accountId t) (accounts st) = Some i
                        \<longrightarrow> accounts (fst r)
                            = (accounts st)[i := (accounts st ! i)
                                 \<lparr>balance := js_add (balance (accounts st ! i))
                                                  (signed (tx_type t) (amount t))\<rparr>]))
              \<and> (\<not> isDemoMode \<and> db \<longrightarrow>
                    fst r = st
                  \<and> (List.find (\<lambda>a. account_id a = accountId t) (accounts st) = None
                        \<longrightarrow> snd r = [AddTransaction t])
                  \<and> (\<forall>a. List.find (\<lambda>a. account_id a = accountId t) (accounts st) = Some a
                        \<longrightarrow> snd r = [AddTransaction t,
                                     SetBalance (account_id a)
                                       (js_add (balance a) (signed (tx_type t) (amount t)))]))
              \<and> (\<not> isDemoMode \<and> \<not> db \<longrightarrow> r = (st, []))"
    unfolding Let_def v option.sel t_def[symmetric] t
    using d l e by blast
qed

text \<open>The theorem at the amount 0; at an unknown account identifier in demo mode, in
  the persisted mode and with neither backend; and at an Income of 1000 on the account
  with the balance 5000, in demo mode and in the persisted mode.\<close>

theorem apply_guard_witness:
  "handleSaveTransaction True False ''t1'' ''2023-10-05'' ex_newTx_zero (ex_ledger (Finite 5000))
     = (ex_ledger (Finite 5000), [])
   \<and> transactions (fst unknown_applied)
       = [(ex_tx Income (Finite 1000))\<lparr>accountId := ''nobody''\<rparr>]
   \<and> accounts (fst unknown_applied) = accounts (ex_ledger (Finite 5000))
   \<and> snd unknown_applied = []
   \<and> handleSaveTransaction False True ''t1'' ''2023-10-05'' ex_newTx_unknown
         (ex_ledger (Finite 5000))
     = (ex_ledger (Finite 5000),
        [AddTransaction ((ex_tx Income (Finite 1000))\<lparr>accountId := ''nobody''\<rparr>)])
   \<and> handleSaveTransaction False False ''t1'' ''2023-10-05'' ex_newTx_unknown
         (ex_ledger (Finite 5000))
     = (ex_ledger (Finite 5000), [])
   \<and> accounts (fst (handleSaveTransaction True False ''t1'' ''2023-10-05''
                      (ex_newTx Income (Finite 1000)) (ex_ledger (Finite 5000))))
     = [ex_account (Finite 6000)]
   \<and> snd (handleSaveTransaction False True ''t1'' ''2023-10-05''
            (ex_newTx Income (Finite 1000)) (ex_ledger (Finite 5000)))
     = [AddTransaction (ex_tx Income (Finite 1000)), SetBalance ''1'' (Finite 6000)]"
proof -
  let ?st = "ex_ledger (Finite 5000)"
  let ?n = "ex_newTx Income (Finite 1000)"
  have z: "\<not> (truthy_number (new_amount ex_newTx_zero) \<and> truthy_string (new_accountId ex_newTx_zero)
          \<and> truthy_string (new_category ex_newTx_zero))"
    by (simp add: ex_newTx_zero_def ex_newTx_def)
  have u: "truthy_number (new_amount ex_newTx_unknown) \<and> truthy_string (new_accountId ex_newTx_unknown)
          \<and> truthy_string (new_category ex_newTx_unknown)"
    by (simp add: ex_newTx_unknown_def ex_newTx_def)
  have k: "truthy_number (new_amount ?n) \<and> truthy_string (new_accountId ?n)
          \<and> truthy_string (new_category ?n)"
    by (simp add: ex_newTx_def)
  have tu: "txData ''t1'' ''2023-10-05'' ex_newTx_unknown (the (new_amount ex_newTx_unknown))
              (the (new_accountId ex_newTx_unknown)) (the (new_category ex_newTx_unknown))
            = (ex_tx Income (Finite 1000))\<lparr>accountId := ''nobody''\<rparr>"
    by (simp add: txData_def ex_newTx_unknown_def ex_newTx_def ex_tx_def)
  have tk: "txData ''t1'' ''2023-10-05'' ?n (the (new_amount ?n))
              (the (new_accountId ?n)) (the (new_category ?n))
            = ex_tx Income (Finite 1000)"
    by (simp add: txData_def ex_newTx_def ex_tx_def)
  have none: "findIndex (\<lambda>a. account_id a = ''nobody'') (accounts ?st) = None"
    "List.find (\<lambda>a. account_id a = ''nobody'') (accounts ?st) = None"
    by (simp_all add: ex_ledger_def ex_account_def)
  have some: "findIndex (\<lambda>a. account_id a = ''1'') (accounts ?st) = Some 0"
    "List.find (\<lambda>a. account_id a = ''1'') (accounts ?st) = Some (ex_account (Finite 5000))"
    by (simp_all add: ex_ledger_def ex_account_def)
  have sum: "js_add (Finite 5000) (signed Income (Finite 1000)) = Finite 6000"
    using is_double_6000 by (simp add: signed_def is_double_def)
  from apply_guard[of ex_newTx_zero True False "''t1''" "''2023-10-05''" ?st] z
  have 1: "handleSaveTransaction True False ''t1'' ''2023-10-05'' ex_newTx_zero ?st = (?st, [])"
    by blast
  from apply_guard[of ex_newTx_unknown True False "''t1''" "''2023-10-05''" ?st] u none
  have 2: "transactions (fst unknown_applied)
       = [(ex_tx Income (Finite 1000))\<lparr>accountId := ''nobody''\<rparr>]
     \<and> accounts (fst unknown_applied) = accounts ?st \<and> snd unknown_applied = []"
    unfolding unknown_applied_def Let_def tu by (simp add: ex_ledger_def)
  from apply_guard[of ex_newTx_unknown False True "''t1''" "''2023-10-05''" ?st] u none
  have 3: "handleSaveTransaction False True ''t1'' ''2023-10-05'' ex_newTx_unknown ?st
     = (?st, [AddTransaction ((ex_tx Income (Finite 1000))\<lparr>accountId := ''nobody''\<rparr>)])"
    unfolding Let_def tu by (simp add: prod_eq_iff)
  from apply_guard[of ex_newTx_unknown False False "''t1''" "''2023-10-05''" ?st] u
  have 4: "handleSaveTransaction False False ''t1'' ''2023-10-05'' ex_newTx_unknown ?st
     = (?st, [])"
    unfolding Let_def by simp
  from apply_guard[of ?n True False "''t1''" "''2023-10-05''" ?st] k some sum
  have 5: "accounts (fst (handleSaveTransaction True False ''t1'' ''2023-10-05'' ?n ?st))
     = [ex_account (Finite 6000)]"
    unfolding Let_def tk by (simp add: ex_tx_def ex_ledger_def ex_account_def)
  from apply_guard[of ?n False True "''t1''" "''2023-10-05''" ?st] k some sum
  have 6: "snd (handleSaveTransaction False True ''t1'' ''2023-10-05'' ?n ?st)
     = [AddTransaction (ex_tx Income (Finite 1000)), SetBalance ''1'' (Finite 6000)]"
    unfolding Let_def tk by (simp add: ex_tx_def ex_account_def)
  from 1 2 3 4 5 6 show ?thesis by simp
qed

text \<open>
  Claim C3 as stated fails: an Expense of -5 is recorded and raises the balance from
  5000 to 5005, and a submission for an account that does not exist is recorded too.
\<close>

theorem apply_guard_counterexample:
  "neg_applied \<noteq> (ex_ledger (Finite 5000), [])
   \<and> balance (accounts (fst neg_applied) ! 0) = Finite 5005
   \<and> unknown_applied \<noteq> (ex_ledger (Finite 5000), [])"
proof -
  have "fst neg_applied = \<lparr>accounts = [ex_account (Finite 5005)],
                  transactions = [ex_tx Expense (Finite (- 5))]\<rparr>"
    using is_double_5005
    by (simp add: neg_applied_def handleSaveTransaction_def txData_def ex_newTx_def ex_ledger_def
        ex_account_def ex_tx_def signed_def is_double_def)
  moreover have "transactions (fst unknown_applied) \<noteq> []"
    by (simp add: unknown_applied_def handleSaveTransaction_def txData_def ex_newTx_unknown_def
        ex_newTx_def ex_ledger_def ex_account_def)
  ultimately have "fst neg_applied \<noteq> ex_ledger (Finite 5000)"
    "balance (accounts (fst neg_applied) ! 0) = Finite 5005"
    "fst unknown_applied \<noteq> ex_ledger (Finite 5000)"
    by (auto simp: ex_ledger_def ex_account_def)
  then show ?thesis by (auto simp: prod_eq_iff)
qed




section \<open>Properties of the price lookup\<close>

text \<open>When a fence is found with a non-empty capture that does not parse, the result
  is the empty array, whatever the rest of the text holds.\<close>

lemma extract_prices_fenced_unparsable:
  "jsonMatch raw = Some cap \<Longrightarrow> cap \<noteq> [] \<Longrightarrow> parse cap = None \<Longrightarrow> extract_prices parse raw = JArr []"
  by (simp add: extract_prices_def)

text \<open>
  Claim C4 fails on the code. For the response \<open>fenced_bad\<close> the fenced block is found,
  its contents \<^verbatim>\<open>not json\<close> do not parse, the substring from the first \<^verbatim>\<open>[\<close> to the
  last \<^verbatim>\<open>]\<close> of the text is a JSON array with one quote, and yet the parsing block
  returns the empty array: the bracket search is not run after a failed parse.
\<close>

theorem fenced_unparsable_no_fallback:
  "jsonMatch fenced_bad = Some ''not json''
   \<and> JSON_parse ''not json'' = None
   \<and> bracket_prices JSON_parse fenced_bad = JArr [quote ''AAPL'' 1]
   \<and> extract_prices JSON_parse fenced_bad = JArr []"
proof -
  have m: "jsonMatch fenced_bad = Some ''not json''" by code_simp
  have p: "JSON_parse ''not json'' = None" by code_simp
  have b: "bracket_prices JSON_parse fenced_bad = JArr [quote ''AAPL'' 1]" by code_simp
  have "extract_prices JSON_parse fenced_bad = JArr []"
    by (simp add: extract_prices_def m p)
  with m p b show ?thesis by simp
qed

text \<open>
  Claim C5, amended. The value that \<^verbatim>\<open>JSON.parse\<close> returns is the price list as it
  is: of an array every element is kept, in order, and none is validated. This holds for
  the capture of a fence and for the bracketed substring.
\<close>

theorem entries_unvalidated:
  "(jsonMatch raw = Some cap \<and> cap \<noteq> [] \<and> parse cap = Some v
      \<longrightarrow> extract_prices parse raw = v)
   \<and> ((jsonMatch raw = None \<or> jsonMatch raw = Some [])
        \<and> indexOf CHR ''['' raw = Some i \<and> lastIndexOf CHR '']'' raw = Some j
        \<and> parse (substring raw i (j + 1)) = Some v
      \<longrightarrow> extract_prices parse raw = v)"
  by (auto simp: extract_prices_def bracket_prices_def)

lemma entries_parsed:
  "JSON_parse entries_text = Some (JArr [quote ''X'' 1, JObj [(''symbol'', JStr ''Y'')]])"
  by code_simp

lemma labelled_match: "jsonMatch labelled_text = Some labelled_array"
  by code_simp

lemma labelled_nonempty: "labelled_array \<noteq> []"
  by code_simp

lemma labelled_parsed:
  "JSON_parse labelled_array = Some (JArr [quote ''AAPL'' (3963519515806925 / 17592186044416)])"
  by code_simp

lemma entries_brackets:
  "jsonMatch entries_text = None" "indexOf CHR ''['' entries_text = Some 0"
  "lastIndexOf CHR '']'' entries_text = Some 40"
  "substring entries_text 0 (40 + 1) = entries_text"
  by code_simp+

text \<open>The theorem at the specification's labelled example (first part) and at its
  entry-filtering example (second part).\<close>

theorem entries_unvalidated_witness:
  "extract_prices JSON_parse labelled_text
     = JArr [quote ''AAPL'' (3963519515806925 / 17592186044416)]
   \<and> extract_prices JSON_parse entries_text
     = JArr [quote ''X'' 1, JObj [(''symbol'', JStr ''Y'')]]"
proof -
  have 1: "extract_prices JSON_parse labelled_text
             = JArr [quote ''AAPL'' (3963519515806925 / 17592186044416)]"
    using entries_unvalidated[where raw = labelled_text and parse = JSON_parse
        and cap = labelled_array
        and v = "JArr [quote ''AAPL'' (3963519515806925 / 17592186044416)]"]
      labelled_match labelled_nonempty labelled_parsed by simp
  have 2: "extract_prices JSON_parse entries_text
             = JArr [quote ''X'' 1, JObj [(''symbol'', JStr ''Y'')]]"
    using entries_unvalidated[where raw = entries_text and parse = JSON_parse and i = 0
        and j = 40 and v = "JArr [quote ''X'' 1, JObj [(''symbol'', JStr ''Y'')]]"]
      entries_brackets entries_parsed by simp
  from 1 2 show ?thesis by simp
qed

text \<open>
  Claim C5 as stated fails at the specification's own example: the element without a
  price is returned, while the validation of the specification keeps the first element
  only.
\<close>

theorem entries_unvalidated_counterexample:
  "extract_prices JSON_parse entries_text = JArr [quote ''X'' 1, JObj [(''symbol'', JStr ''Y'')]]
   \<and> filter spec_valid_quote [quote ''X'' 1, JObj [(''symbol'', JStr ''Y'')]] = [quote ''X'' 1]"
proof -
  have "extract_prices JSON_parse entries_text
          = JArr [quote ''X'' 1, JObj [(''symbol'', JStr ''Y'')]]"
    using entries_brackets entries_parsed by (simp add: extract_prices_def bracket_prices_def)
  moreover have "filter spec_valid_quote [quote ''X'' 1, JObj [(''symbol'', JStr ''Y'')]]
      = [quote ''X'' 1]"
    by (simp add: spec_valid_quote_def quote_def)
  ultimately show ?thesis by simp
qed

text \<open>
  Claim C10. With no symbols, the lookup returns an empty price array and an empty source
  list, sends no request to the service, and does so whatever the service would have
  answered; in particular it does not fail.
\<close>

theorem fetch_empty:
  "fetchCurrentStockPrices parse generateContent [] = (Inr (JArr [], []), [])"
  by (simp add: fetchCurrentStockPrices_def)

section \<open>Properties of the price refresh\<close>

text \<open>On elements that are objects with a string symbol, the two tests raise nothing
  and are plain predicates of the symbol.\<close>

lemma has_string_symbolD:
  assumes "has_string_symbol x"
  obtains kvs where "x = JObj kvs" "map_of (rev kvs) ''symbol'' = Some (JStr (quote_symbol x))"
  using assms
  by (cases x) (auto simp: has_string_symbol_def quote_symbol_def split: option.splits json.splits)

lemma live_match_wf:
  assumes "has_string_symbol x"
  shows "live_match stock x = Inr (toLowerCase (quote_symbol x) = toLowerCase (symbol stock)
                                  \<or> js_includes (quote_symbol x) (symbol stock))"
proof -
  from assms obtain kvs where "x = JObj kvs"
    "map_of (rev kvs) ''symbol'' = Some (JStr (quote_symbol x))"
    by (rule has_string_symbolD)
  then show ?thesis by (simp add: live_match_def)
qed

lemma demo_match_wf:
  assumes "has_string_symbol x"
  shows "demo_match s x = Inr (quote_symbol x = symbol s)"
proof -
  from assms obtain kvs where "x = JObj kvs"
    "map_of (rev kvs) ''symbol'' = Some (JStr (quote_symbol x))"
    by (rule has_string_symbolD)
  then show ?thesis by (simp add: demo_match_def)
qed


lemma find_js_pure:
  "\<forall>x\<in>set xs. P x = Inr (Q x) \<Longrightarrow> find_js P xs = Inr (List.find Q xs)"
  by (induction xs) auto

lemma find_SomeD: "List.find Q xs = Some x \<Longrightarrow> x \<in> set xs \<and> Q x"
  by (induction xs) (auto split: if_splits)

lemma find_js_live:
  assumes "list_all has_string_symbol quotes"
  shows "find_js (live_match stock) quotes
     = Inr (List.find (\<lambda>q. toLowerCase (quote_symbol q) = toLowerCase (symbol stock)
                            \<or> js_includes (quote_symbol q) (symbol stock)) quotes)"
  using assms by (intro find_js_pure) (auto simp: list_all_iff live_match_wf)

lemma find_js_demo:
  assumes "list_all has_string_symbol quotes"
  shows "find_js (demo_match s) quotes = Inr (List.find (\<lambda>q. quote_symbol q = symbol s) quotes)"
  using assms by (intro find_js_pure) (auto simp: list_all_iff demo_match_wf)





lemma quote_wf: "has_string_symbol (quote s p)"
  by (simp add: has_string_symbol_def quote_def)

lemma quote_symbol_quote: "quote_symbol (quote s p) = s"
  by (simp add: quote_symbol_def quote_def)

lemma symbol_ex_holding: "symbol (ex_holding s) = s"
  by (simp add: ex_holding_def)

lemma lower_2330: "toLowerCase ''2330.tw'' = toLowerCase ''2330.TW''"
  by code_simp

lemma nvda_no_match:
  "\<not> (toLowerCase ''AAPL'' = toLowerCase ''NVDA'' \<or> js_includes ''AAPL'' ''NVDA'')"
  by code_simp







text \<open>
  Claim C6, amended. In the persisted mode, for a quote list whose elements all carry a
  string symbol, the matcher makes a single pass in parser output order and returns the
  first quote whose symbol equals the holding symbol case-insensitively or contains the
  holding symbol as it is written (case-sensitively); an exact match has no priority
  over an earlier containing quote, and a quote symbol contained in the holding symbol
  does not match. When no quote satisfies the rule, nothing is returned and no write is
  sent for the holding.
\<close>

theorem live_first_match:
  assumes "list_all has_string_symbol quotes"
  shows "find_js (live_match stock) quotes
           = Inr (List.find (\<lambda>q. toLowerCase (quote_symbol q) = toLowerCase (symbol stock)
                                  \<or> js_includes (quote_symbol q) (symbol stock)) quotes)
       \<and> (find_js (live_match stock) quotes = Inr None
            \<longrightarrow> live_loop now quotes [stock] = (None, []))"
  using find_js_live[OF assms] by simp

text \<open>The theorem at the specification's examples: the holding 2330.TW with the quote
  2330.tw, and the holding NVDA with the quote AAPL.\<close>

theorem live_first_match_witness:
  "find_js (live_match (ex_holding ''2330.TW'')) [quote ''2330.tw'' 990]
     = Inr (Some (quote ''2330.tw'' 990))
   \<and> live_loop ''now'' [quote ''AAPL'' 1] [ex_holding ''NVDA''] = (None, [])"
proof -
  have 1: "find_js (live_match (ex_holding ''2330.TW'')) [quote ''2330.tw'' 990]
     = Inr (Some (quote ''2330.tw'' 990))"
    using live_first_match[of "[quote ''2330.tw'' 990]" "ex_holding ''2330.TW''"] lower_2330
    by (simp add: quote_wf quote_symbol_quote ex_holding_def)
  have "find_js (live_match (ex_holding ''NVDA'')) [quote ''AAPL'' 1] = Inr None"
    using live_first_match[of "[quote ''AAPL'' 1]" "ex_holding ''NVDA''"] nvda_no_match
    by (simp add: quote_wf quote_symbol_quote ex_holding_def)
  with live_first_match[of "[quote ''AAPL'' 1]" "ex_holding ''NVDA''" "''now''"]
  have 2: "live_loop ''now'' [quote ''AAPL'' 1] [ex_holding ''NVDA''] = (None, [])"
    by (simp add: quote_wf)
  from 1 2 show ?thesis by simp
qed

text \<open>
  Claim C6 as stated fails: the holding 2330.TW does not match the quote 2330, although
  the holding symbol contains the quote symbol; and for the holding AAPL the earlier
  quote AAPLX wins over the exact quote AAPL.
\<close>

theorem live_match_counterexample:
  "find_js (live_match (ex_holding ''2330.TW'')) [quote ''2330'' 980] = Inr None
   \<and> spec_match [quote ''2330'' 980] ''2330.TW'' = Some (quote ''2330'' 980)
   \<and> find_js (live_match (ex_holding ''AAPL'')) [quote ''AAPLX'' 5, quote ''AAPL'' 7]
       = Inr (Some (quote ''AAPLX'' 5))
   \<and> spec_match [quote ''AAPLX'' 5, quote ''AAPL'' 7] ''AAPL'' = Some (quote ''AAPL'' 7)"
proof -
  have a: "toLowerCase ''2330'' \<noteq> toLowerCase ''2330.TW''" "\<not> js_includes ''2330'' ''2330.TW''"
    "js_includes (toLowerCase ''2330.TW'') (toLowerCase ''2330'')"
    by code_simp+
  have b: "toLowerCase ''AAPLX'' \<noteq> toLowerCase ''AAPL''" "js_includes ''AAPLX'' ''AAPL''"
    by code_simp+
  have wf1: "list_all has_string_symbol [quote ''2330'' 980]" by (simp add: quote_wf)
  have wf2: "list_all has_string_symbol [quote ''AAPLX'' 5, quote ''AAPL'' 7]"
    by (simp add: quote_wf)
  have 1: "find_js (live_match (ex_holding ''2330.TW'')) [quote ''2330'' 980] = Inr None"
    unfolding find_js_live[OF wf1]
    using a by (simp add: quote_symbol_quote symbol_ex_holding)
  have 2: "spec_match [quote ''2330'' 980] ''2330.TW'' = Some (quote ''2330'' 980)"
    using a by (simp add: spec_match_def quote_symbol_quote)
  have 3: "find_js (live_match (ex_holding ''AAPL'')) [quote ''AAPLX'' 5, quote ''AAPL'' 7]
       = Inr (Some (quote ''AAPLX'' 5))"
    unfolding find_js_live[OF wf2]
    using b by (simp add: quote_symbol_quote symbol_ex_holding)
  have 4: "spec_match [quote ''AAPLX'' 5, quote ''AAPL'' 7] ''AAPL'' = Some (quote ''AAPL'' 7)"
    using b by (simp add: spec_match_def quote_symbol_quote)
  from 1 2 3 4 show ?thesis by simp
qed

text \<open>
  Where the two backends agree. The demo backend matches a quote whose symbol is
  identical to the holding symbol, the persisted backend a quote whose symbol equals it
  case-insensitively or contains it. On a quote list whose elements all carry a string
  symbol, every holding that the demo backend matches is matched by the persisted
  backend too, and both select the same quote for a holding whenever every quote that
  the persisted rule accepts for it carries exactly the holding's symbol.
\<close>

lemma backends_agree_on_exact:
  assumes "list_all has_string_symbol quotes"
  shows "(\<forall>q. find_js (demo_match s) quotes = Inr (Some q)
            \<longrightarrow> (\<exists>q'. find_js (live_match s) quotes = Inr (Some q')))
       \<and> ((\<forall>q\<in>set quotes. toLowerCase (quote_symbol q) = toLowerCase (symbol s)
                              \<or> js_includes (quote_symbol q) (symbol s)
                            \<longrightarrow> quote_symbol q = symbol s)
            \<longrightarrow> find_js (live_match s) quotes = find_js (demo_match s) quotes)"
proof (intro conjI allI impI)
  fix q assume "find_js (demo_match s) quotes = Inr (Some q)"
  then have "List.find (\<lambda>q. quote_symbol q = symbol s) quotes = Some q"
    by (simp add: find_js_demo[OF assms])
  then have "q \<in> set quotes" "quote_symbol q = symbol s" by (auto dest: find_SomeD)
  then have "List.find (\<lambda>q. toLowerCase (quote_symbol q) = toLowerCase (symbol s)
                            \<or> js_includes (quote_symbol q) (symbol s)) quotes \<noteq> None"
    by (auto simp: find_None_iff)
  then show "\<exists>q'. find_js (live_match s) quotes = Inr (Some q')"
    by (auto simp: find_js_live[OF assms])
next
  assume h: "\<forall>q\<in>set quotes. toLowerCase (quote_symbol q) = toLowerCase (symbol s)
                              \<or> js_includes (quote_symbol q) (symbol s)
                            \<longrightarrow> quote_symbol q = symbol s"
  have "List.find (\<lambda>q. toLowerCase (quote_symbol q) = toLowerCase (symbol s)
                            \<or> js_includes (quote_symbol q) (symbol s)) quotes
        = List.find (\<lambda>q. quote_symbol q = symbol s) quotes"
    using h by (intro find_cong) auto
  then show "find_js (live_match s) quotes = find_js (demo_match s) quotes"
    by (simp add: find_js_live[OF assms] find_js_demo[OF assms])
qed

text \<open>The lemma at the holding AAPL and the quote AAPL.\<close>

lemma backends_agree_on_exact_example:
  "find_js (live_match (ex_holding ''AAPL'')) [quote ''AAPL'' 225]
     = find_js (demo_match (ex_holding ''AAPL'')) [quote ''AAPL'' 225]
   \<and> find_js (demo_match (ex_holding ''AAPL'')) [quote ''AAPL'' 225]
     = Inr (Some (quote ''AAPL'' 225))
   \<and> (\<exists>q'. find_js (live_match (ex_holding ''AAPL'')) [quote ''AAPL'' 225] = Inr (Some q'))"
proof -
  have wf: "list_all has_string_symbol [quote ''AAPL'' 225]" by (simp add: quote_wf)
  have d: "find_js (demo_match (ex_holding ''AAPL'')) [quote ''AAPL'' 225]
     = Inr (Some (quote ''AAPL'' 225))"
    unfolding find_js_demo[OF wf] by (simp add: quote_symbol_quote ex_holding_def)
  have ex: "\<forall>q\<in>set [quote ''AAPL'' 225].
      toLowerCase (quote_symbol q) = toLowerCase (symbol (ex_holding ''AAPL''))
        \<or> js_includes (quote_symbol q) (symbol (ex_holding ''AAPL''))
      \<longrightarrow> quote_symbol q = symbol (ex_holding ''AAPL'')"
    by (simp add: quote_symbol_quote ex_holding_def)
  from backends_agree_on_exact[OF wf, of "ex_holding ''AAPL''"] d ex show ?thesis
    by blast
qed

text \<open>
  Claim C9 fails on the code. The two backends do not match alike: at the
  specification's own matching example, the holding 2330.TW and the quote 2330.tw at
  990, the demo backend leaves the holding as it is, while the persisted backend matches
  the quote and sends the new price 990.
\<close>

theorem backends_differ:
  "stocks_after (apply_prices True False ''now'' [quote ''2330.tw'' 990] [] [ex_holding ''2330.TW''])
     = [ex_holding ''2330.TW'']
   \<and> writes (apply_prices False True ''now'' [quote ''2330.tw'' 990] [] [ex_holding ''2330.TW''])
     = [UpdateStock ''2330.TW'' (Some (JNum (Finite 990))) ''now'']"
proof -
  have wf: "list_all has_string_symbol [quote ''2330.tw'' 990]" by (simp add: quote_wf)
  have f1: "find_js (demo_match (ex_holding ''2330.TW'')) [quote ''2330.tw'' 990] = Inr None"
    unfolding find_js_demo[OF wf] by (simp add: quote_symbol_quote ex_holding_def)
  have f2: "find_js (live_match (ex_holding ''2330.TW'')) [quote ''2330.tw'' 990]
              = Inr (Some (quote ''2330.tw'' 990))"
    unfolding find_js_live[OF wf] using lower_2330 by (simp add: quote_symbol_quote ex_holding_def)
  have p: "get_prop (quote ''2330.tw'' 990) ''price'' = Inr (Some (JNum (Finite 990)))"
    by (simp add: quote_def)
  have s: "symbol (ex_holding ''2330.TW'') = ''2330.TW''" by (simp add: ex_holding_def)
  have 1: "demo_update ''now'' [quote ''2330.tw'' 990] (ex_holding ''2330.TW'')
             = Inr (ex_holding ''2330.TW'')"
    by (simp add: demo_update_def f1 del: find_js.simps)
  have 2: "live_loop ''now'' [quote ''2330.tw'' 990] [ex_holding ''2330.TW'']
             = (None, [UpdateStock ''2330.TW'' (Some (JNum (Finite 990))) ''now''])"
    by (simp add: f2 p s del: find_js.simps)
  from 1 2 show ?thesis by (simp add: apply_prices_def)
qed








end
